theory Spec2Isabelle
  imports Main "HOL-Library.Char_ord" "HOL-Library.List_Lexorder"
begin

section \<open>Errors, rows and the state of the two collaborators\<close>

text \<open>
  The services of the repository talk to two collaborators: a PostgreSQL pool
  (\<^verbatim>\<open>this._pool.query\<close>) and a Redis client wrapped by \<^verbatim>\<open>CacheService\<close>.
  Every \<^verbatim>\<open>throw\<close> of the source is a value of \<open>error\<close>; a rejected promise of a
  collaborator is one too. The store answers every statement, and rejects an insert only
  for a constraint it breaks; the transport to the cache may fail at any call. Calls run
  one after the other: a service function is a function from the world before the call to
  its outcome and the world after it.
\<close>

datatype error =
    InvariantError string        \<comment> \<open>exceptions/InvariantError, status 400: the conflict kind\<close>
  | NotFoundError string         \<comment> \<open>exceptions/NotFoundError, status 404\<close>
  | AuthorizationError string    \<comment> \<open>exceptions/AuthorizationError, status 403\<close>
  | PlainError string            \<comment> \<open>\<^verbatim>\<open>new Error(message)\<close>\<close>
  | PgError string               \<comment> \<open>a rejected query; the string is \<^verbatim>\<open>error.constraint\<close>\<close>
  | RedisError                   \<comment> \<open>a rejected Redis command: the transport failed\<close>

datatype verb = SELECT | INSERT | DELETE

datatype event =
    Query verb string            \<comment> \<open>a statement sent to the pool, and its table\<close>
  | CacheGet string
  | CacheSet string
  | CacheDel string

record like_row =
  like_id :: string
  like_user_id :: string
  like_album_id :: string

record user_row =
  user_id :: string
  user_username :: string

record song_row =
  song_id :: string
  song_title :: string

record playlist_row =
  playlist_id :: string
  playlist_name :: string
  playlist_owner :: string

record playlist_song_row =
  ps_id :: string
  ps_playlist_id :: string
  ps_song_id :: string

record activity_row =
  act_id :: string
  act_playlist_id :: string
  act_song_id :: string
  act_user_id :: string
  act_action :: string
  act_time :: string

record database =
  users :: "user_row list"
  songs :: "song_row list"
  playlists :: "playlist_row list"
  playlist_songs :: "playlist_song_row list"
  playlist_song_activities :: "activity_row list"
  user_album_likes :: "like_row list"

text \<open>
  Redis keeps, for a key, the text and the instant (in seconds of its own clock) at which
  the entry expires; \<open>elapse\<close> lets time pass.
\<close>

record redis =
  entries :: "string \<rightharpoonup> string \<times> nat"
  clock :: nat

text \<open>
  The world is the store, the cache and the log of the calls issued to them so far, in the
  order of issue. The log is written only; no result depends on it.
\<close>

record world =
  db :: database
  cache :: redis
  trace :: "event list"

definition emit :: "event \<Rightarrow> world \<Rightarrow> world" where
  "emit e w = w\<lparr>trace := trace w @ [e]\<rparr>"

definition elapse :: "nat \<Rightarrow> world \<Rightarrow> world" where
  "elapse n w = w\<lparr>cache := (cache w)\<lparr>clock := clock (cache w) + n\<rparr>\<rparr>"

section \<open>The Redis client and CacheService\<close>

text \<open>Whether the transport answers is decided outside the program, call by call.\<close>

datatype link = Up | Down

definition redis_lookup :: "redis \<Rightarrow> string \<Rightarrow> string option" where
  "redis_lookup r key =
     (case entries r key of
        None \<Rightarrow> None
      | Some (v, deadline) \<Rightarrow> if clock r < deadline then Some v else None)"

text \<open>
  \<^verbatim>\<open>async set(key, value, expirationInSeconds = 3600)\<close>:
  \<^verbatim>\<open>await this._client.set(key, value, { EX: expirationInSeconds })\<close>.
\<close>

definition CacheService_set :: "link \<Rightarrow> string \<Rightarrow> string \<Rightarrow> nat option \<Rightarrow> world \<Rightarrow> (error + unit) \<times> world" where
  "CacheService_set l key v ex w =
     (let expirationInSeconds = (case ex of None \<Rightarrow> 3600 | Some s \<Rightarrow> s);
          w1 = emit (CacheSet key) w
      in case l of
           Down \<Rightarrow> (Inl RedisError, w1)
         | Up \<Rightarrow>
             (Inr (),
              w1\<lparr>cache := (cache w1)\<lparr>entries :=
                   (entries (cache w1))(key \<mapsto> (v, clock (cache w1) + expirationInSeconds))\<rparr>\<rparr>))"

text \<open>
  \<^verbatim>\<open>async get(key)\<close>: \<^verbatim>\<open>if (result === null) throw new Error('Cache not found')\<close>.
\<close>

definition CacheService_get :: "link \<Rightarrow> string \<Rightarrow> world \<Rightarrow> (error + string) \<times> world" where
  "CacheService_get l key w =
     (let w1 = emit (CacheGet key) w
      in case l of
           Down \<Rightarrow> (Inl RedisError, w1)
         | Up \<Rightarrow>
             (case redis_lookup (cache w1) key of
                None \<Rightarrow> (Inl (PlainError ''Cache not found''), w1)
              | Some result \<Rightarrow> (Inr result, w1)))"

text \<open>\<^verbatim>\<open>async delete(key)\<close>: \<^verbatim>\<open>return await this._client.del(key)\<close>, the number of keys removed.\<close>

definition CacheService_delete :: "link \<Rightarrow> string \<Rightarrow> world \<Rightarrow> (error + nat) \<times> world" where
  "CacheService_delete l key w =
     (let w1 = emit (CacheDel key) w
      in case l of
           Down \<Rightarrow> (Inl RedisError, w1)
         | Up \<Rightarrow>
             (Inr (case redis_lookup (cache w1) key of None \<Rightarrow> 0 | Some _ \<Rightarrow> 1),
              w1\<lparr>cache := (cache w1)\<lparr>entries := (entries (cache w1))(key := None)\<rparr>\<rparr>))"

section \<open>JSON texts of counts\<close>

text \<open>
  \<^verbatim>\<open>countLikes\<close> writes \<^verbatim>\<open>JSON.stringify(count)\<close> for a count it computed and reads with
  \<^verbatim>\<open>JSON.parse\<close>. For a non-negative integer the text is its decimal numeral (counts stay
  below \<open>2^53\<close>, where JavaScript numbers are exact). \<^verbatim>\<open>JSON.parse\<close> is modelled exactly on
  the numerals of the integers up to \<open>2^53 = 9007199254740992\<close>, which it reads without
  rounding. What it does on every other text is the parameter \<open>other\<close>: a larger
  numeral, which it rounds to a double, another JSON value, or a SyntaxError, which is
  \<open>None\<close>.
\<close>

datatype json = JInt nat | JOther string

definition digit_char :: "nat \<Rightarrow> char" where
  "digit_char d = char_of (48 + d)"

fun JSON_stringify :: "nat \<Rightarrow> string" where
  "JSON_stringify n =
     (if n < 10 then [digit_char n] else JSON_stringify (n div 10) @ [digit_char (n mod 10)])"

declare JSON_stringify.simps [simp del]

definition is_digit :: "char \<Rightarrow> bool" where
  "is_digit c = (48 \<le> (of_char c :: nat) \<and> (of_char c :: nat) \<le> 57)"

definition digit_value :: "char \<Rightarrow> nat" where
  "digit_value c = of_char c - 48"

definition is_integer_text :: "string \<Rightarrow> bool" where
  "is_integer_text s =
     (case s of
        [] \<Rightarrow> False
      | c # cs \<Rightarrow> list_all is_digit s \<and> (if c = CHR ''0'' then cs = [] else True))"

definition integer_value :: "string \<Rightarrow> nat" where
  "integer_value s = foldl (\<lambda>acc c. 10 * acc + digit_value c) 0 s"

definition JSON_parse :: "(string \<Rightarrow> json option) \<Rightarrow> string \<Rightarrow> json option" where
  "JSON_parse other s =
     (if is_integer_text s \<and> integer_value s \<le> 9007199254740992
        then Some (JInt (integer_value s))
        else other s)"

text \<open>An \<open>other\<close> for the examples, where no text reaches it: it rejects every text.\<close>

definition syntax_error :: "string \<Rightarrow> json option" where
  "syntax_error s = None"

section \<open>AlbumLikesService (src/services/postgres/AlbumLikesService.js)\<close>

definition like_rows :: "string \<Rightarrow> string \<Rightarrow> database \<Rightarrow> like_row list" where
  "like_rows userId albumId d =
     filter (\<lambda>r. like_user_id r = userId \<and> like_album_id r = albumId) (user_album_likes d)"

definition album_like_rows :: "string \<Rightarrow> database \<Rightarrow> like_row list" where
  "album_like_rows albumId d = filter (\<lambda>r. like_album_id r = albumId) (user_album_likes d)"

text \<open>
  Modelled from the spec: the migration that creates \<^verbatim>\<open>user_album_likes\<close> is not in the
  source. The spec has a like relation unique per (subject, resource) pair, enforced by
  the store; the guide's \<^verbatim>\<open>addLike\<close> names the constraint \<^verbatim>\<open>unique_user_and_album\<close>. The
  primary key on \<^verbatim>\<open>id\<close> is as in every table whose migration is in the source.
\<close>

definition insert_user_album_likes :: "like_row \<Rightarrow> database \<Rightarrow> error + database" where
  "insert_user_album_likes row d =
     (if like_id row \<in> set (map like_id (user_album_likes d))
        then Inl (PgError ''user_album_likes_pkey'')
      else if like_rows (like_user_id row) (like_album_id row) d \<noteq> []
        then Inl (PgError ''unique_user_and_album'')
      else Inr (d\<lparr>user_album_likes := user_album_likes d @ [row]\<rparr>))"

text \<open>\<^verbatim>\<open>DELETE FROM user_album_likes WHERE user_id = $1 AND album_id = $2\<close>\<close>

definition delete_user_album_likes :: "string \<Rightarrow> string \<Rightarrow> database \<Rightarrow> database" where
  "delete_user_album_likes userId albumId d =
     d\<lparr>user_album_likes :=
         filter (\<lambda>r. \<not> (like_user_id r = userId \<and> like_album_id r = albumId))
           (user_album_likes d)\<rparr>"

text \<open>
  \<^verbatim>\<open>async addLike(userId, albumId)\<close>. \<open>nano\<close> is the value of \<^verbatim>\<open>nanoid(16)\<close> and \<open>l\<close> the
  transport at the one cache call.
\<close>

definition addLike :: "link \<Rightarrow> string \<Rightarrow> string \<Rightarrow> string \<Rightarrow> world \<Rightarrow> (error + string) \<times> world" where
  "addLike l nano userId albumId w =
     (let w1 = emit (Query SELECT ''user_album_likes'') w;
          rowCount = length (like_rows userId albumId (db w1))
      in if rowCount \<noteq> 0 then (Inl (InvariantError ''Anda hanya boleh like sekali''), w1)
         else
           let id = ''like-'' @ nano;
               w2 = emit (Query INSERT ''user_album_likes'') w1
           in case insert_user_album_likes
                     \<lparr>like_id = id, like_user_id = userId, like_album_id = albumId\<rparr> (db w2) of
                Inl e \<Rightarrow> (Inl e, w2)
              | Inr d \<Rightarrow>
                  (let w3 = w2\<lparr>db := d\<rparr>
                   in if id = [] then (Inl (InvariantError ''Like gagal ditambahkan''), w3)
                      else (case CacheService_delete l (''album-likes:'' @ albumId) w3 of
                              (Inl e, w4) \<Rightarrow> (Inl e, w4)
                            | (Inr _, w4) \<Rightarrow> (Inr id, w4))))"

text \<open>\<^verbatim>\<open>async deleteLike(userId, albumId)\<close>\<close>

definition deleteLike :: "link \<Rightarrow> string \<Rightarrow> string \<Rightarrow> world \<Rightarrow> (error + unit) \<times> world" where
  "deleteLike l userId albumId w =
     (let w1 = emit (Query DELETE ''user_album_likes'') w;
          rows = like_rows userId albumId (db w1);
          w2 = w1\<lparr>db := delete_user_album_likes userId albumId (db w1)\<rparr>
      in if length rows = 0 then (Inl (NotFoundError ''Anda belum like album ini''), w2)
         else case CacheService_delete l (''album-likes:'' @ albumId) w2 of
                (Inl e, w3) \<Rightarrow> (Inl e, w3)
              | (Inr _, w3) \<Rightarrow> (Inr (), w3))"

record like_count =
  count_field :: json
  fromCache :: bool

text \<open>
  \<^verbatim>\<open>async countLikes(albumId)\<close>. The \<^verbatim>\<open>try\<close> block holds the cache read and
  \<^verbatim>\<open>JSON.parse\<close>; whatever is thrown there reaches the one \<^verbatim>\<open>catch\<close>, which never looks at
  the error. \<open>lg\<close> and \<open>ls\<close> are the transport at the read and at the write-back.
\<close>

definition countLikes :: "(string \<Rightarrow> json option) \<Rightarrow> link \<Rightarrow> link \<Rightarrow> string \<Rightarrow> world \<Rightarrow> (error + like_count) \<times> world" where
  "countLikes other lg ls albumId w =
     (let key = ''album-likes:'' @ albumId;
          tried = (case CacheService_get lg key w of
                     (Inl e, w1) \<Rightarrow> (None, w1)
                   | (Inr result, w1) \<Rightarrow> (JSON_parse other result, w1))
      in case tried of
           (Some v, w1) \<Rightarrow> (Inr \<lparr>count_field = v, fromCache = True\<rparr>, w1)
         | (None, w1) \<Rightarrow>
             (let w2 = emit (Query SELECT ''user_album_likes'') w1;
                  n = length (album_like_rows albumId (db w2))
              in (case CacheService_set ls key (JSON_stringify n) None w2 of
                    (Inl e, w3) \<Rightarrow> (Inl e, w3)
                  | (Inr _, w3) \<Rightarrow> (Inr \<lparr>count_field = JInt n, fromCache = False\<rparr>, w3))))"

section \<open>AlbumLikesService as the guide prints it\<close>

text \<open>\<^verbatim>\<open>error.constraint\<close>, undefined on everything but a rejected query.\<close>

definition constraint :: "error \<Rightarrow> string option" where
  "constraint e = (case e of PgError c \<Rightarrow> Some c | _ \<Rightarrow> None)"

text \<open>
  \<^verbatim>\<open>async addLike(albumId, userId)\<close> of the guide: the insert, the emptiness test and the
  cache delete sit in one \<^verbatim>\<open>try\<close>; the \<^verbatim>\<open>catch\<close> turns the named constraint into an
  InvariantError and rethrows everything else.
\<close>

definition addLike_guide :: "link \<Rightarrow> string \<Rightarrow> string \<Rightarrow> string \<Rightarrow> world \<Rightarrow> (error + string) \<times> world" where
  "addLike_guide l nano albumId userId w =
     (let id = ''like-'' @ nano;
          w1 = emit (Query INSERT ''user_album_likes'') w;
          tried =
            (case insert_user_album_likes
                    \<lparr>like_id = id, like_user_id = userId, like_album_id = albumId\<rparr> (db w1) of
               Inl e \<Rightarrow> (Inl e, w1)
             | Inr d \<Rightarrow>
                 (let w2 = w1\<lparr>db := d\<rparr>
                  in if id = [] then (Inl (InvariantError ''Failed to like album''), w2)
                     else (case CacheService_delete l (''likes:'' @ albumId) w2 of
                             (Inl e, w3) \<Rightarrow> (Inl e, w3)
                           | (Inr _, w3) \<Rightarrow> (Inr id, w3))))
      in case tried of
           (Inl e, w') \<Rightarrow>
             (if constraint e = Some ''unique_user_and_album''
                then (Inl (InvariantError ''You already liked this album''), w')
                else (Inl e, w'))
         | (Inr r, w') \<Rightarrow> (Inr r, w'))"

section \<open>The playlist tables\<close>

text \<open>
  The constraints are those of the migrations printed in the guide: a primary key on every
  \<^verbatim>\<open>id\<close>, \<^verbatim>\<open>UNIQUE(playlist_id, song_id)\<close> on \<^verbatim>\<open>playlist_songs\<close> under the name
  \<^verbatim>\<open>unique_playlist_id_and_song_id\<close>, and foreign keys with \<^verbatim>\<open>ON DELETE CASCADE\<close> from
  \<^verbatim>\<open>playlist_songs\<close> to playlists and songs and from \<^verbatim>\<open>playlist_song_activities\<close> to
  playlists. An insert that breaks one of them rejects with the constraint's name and
  leaves the table as it was.
\<close>

definition insert_playlist_songs :: "playlist_song_row \<Rightarrow> database \<Rightarrow> error + database" where
  "insert_playlist_songs row d =
     (if ps_id row \<in> set (map ps_id (playlist_songs d))
        then Inl (PgError ''playlist_songs_pkey'')
      else if filter (\<lambda>r. ps_playlist_id r = ps_playlist_id row \<and> ps_song_id r = ps_song_id row)
                (playlist_songs d) \<noteq> []
        then Inl (PgError ''unique_playlist_id_and_song_id'')
      else if ps_playlist_id row \<notin> set (map playlist_id (playlists d))
        then Inl (PgError ''fk_playlist_songs.playlist_id_playlists.id'')
      else if ps_song_id row \<notin> set (map song_id (songs d))
        then Inl (PgError ''fk_playlist_songs.song_id_songs.id'')
      else Inr (d\<lparr>playlist_songs := playlist_songs d @ [row]\<rparr>))"

text \<open>\<^verbatim>\<open>DELETE FROM playlist_songs WHERE playlist_id = $1 AND song_id = $2\<close>\<close>

definition delete_playlist_songs :: "string \<Rightarrow> string \<Rightarrow> database \<Rightarrow> database" where
  "delete_playlist_songs playlistId songId d =
     d\<lparr>playlist_songs :=
         filter (\<lambda>r. \<not> (ps_playlist_id r = playlistId \<and> ps_song_id r = songId))
           (playlist_songs d)\<rparr>"

text \<open>\<^verbatim>\<open>DELETE FROM playlists WHERE id = $1\<close>, with its two cascades.\<close>

definition delete_playlists :: "string \<Rightarrow> database \<Rightarrow> database" where
  "delete_playlists playlistId d =
     d\<lparr>playlists := filter (\<lambda>p. playlist_id p \<noteq> playlistId) (playlists d),
       playlist_songs := filter (\<lambda>r. ps_playlist_id r \<noteq> playlistId) (playlist_songs d),
       playlist_song_activities :=
         filter (\<lambda>r. act_playlist_id r \<noteq> playlistId) (playlist_song_activities d)\<rparr>"

definition insert_playlist_song_activities :: "activity_row \<Rightarrow> database \<Rightarrow> error + database" where
  "insert_playlist_song_activities row d =
     (if act_id row \<in> set (map act_id (playlist_song_activities d))
        then Inl (PgError ''playlist_song_activities_pkey'')
      else if act_playlist_id row \<notin> set (map playlist_id (playlists d))
        then Inl (PgError ''fk_playlist_song_activities.playlist_id_playlists.id'')
      else Inr (d\<lparr>playlist_song_activities := playlist_song_activities d @ [row]\<rparr>))"

section \<open>PlaylistsService of the repository (the class at the end of src/api/playlists/handler.js)\<close>

text \<open>\<^verbatim>\<open>async verifyPlaylistOwner(playlistId, userId)\<close>\<close>

definition verifyPlaylistOwner :: "string \<Rightarrow> string \<Rightarrow> world \<Rightarrow> (error + unit) \<times> world" where
  "verifyPlaylistOwner playlistId userId w =
     (let w1 = emit (Query SELECT ''playlists'') w;
          rows = filter (\<lambda>p. playlist_id p = playlistId) (playlists (db w1))
      in case rows of
           [] \<Rightarrow> (Inl (NotFoundError ''Playlist tidak ditemukan''), w1)
         | playlist # _ \<Rightarrow>
             (if playlist_owner playlist \<noteq> userId
                then (Inl (AuthorizationError ''Anda tidak berhak mengakses playlist ini''), w1)
                else (Inr (), w1)))"

text \<open>\<^verbatim>\<open>async deletePlaylistById(playlistId, userId)\<close>\<close>

definition deletePlaylistById :: "string \<Rightarrow> string \<Rightarrow> world \<Rightarrow> (error + unit) \<times> world" where
  "deletePlaylistById playlistId userId w =
     (case verifyPlaylistOwner playlistId userId w of
        (Inl e, w1) \<Rightarrow> (Inl e, w1)
      | (Inr _, w1) \<Rightarrow>
          (let w2 = emit (Query DELETE ''playlists'') w1;
               rows = filter (\<lambda>p. playlist_id p = playlistId) (playlists (db w2));
               w3 = w2\<lparr>db := delete_playlists playlistId (db w2)\<rparr>
           in if length rows = 0
                then (Inl (NotFoundError ''Playlist gagal dihapus, Id tidak ditemukan''), w3)
                else (Inr (), w3)))"

text \<open>\<^verbatim>\<open>async addPlaylistSong({ playlistId, songId, userId })\<close>; \<open>nano\<close> is \<^verbatim>\<open>nanoid(16)\<close>.\<close>

definition addPlaylistSong :: "string \<Rightarrow> string \<Rightarrow> string \<Rightarrow> string \<Rightarrow> world \<Rightarrow> (error + string) \<times> world" where
  "addPlaylistSong nano playlistId songId userId w =
     (case verifyPlaylistOwner playlistId userId w of
        (Inl e, w1) \<Rightarrow> (Inl e, w1)
      | (Inr _, w1) \<Rightarrow>
          (let w2 = emit (Query SELECT ''playlists'') w1;
               playlistCheck = filter (\<lambda>p. playlist_id p = playlistId) (playlists (db w2))
           in if length playlistCheck = 0
                then (Inl (NotFoundError ''Playlist tidak ditemukan''), w2)
              else
                (let w3 = emit (Query SELECT ''songs'') w2;
                     songCheck = filter (\<lambda>s. song_id s = songId) (songs (db w3))
                 in if length songCheck = 0
                      then (Inl (NotFoundError ''Lagu tidak ditemukan''), w3)
                    else
                      (let id = ''playlist-song-'' @ nano;
                           w4 = emit (Query INSERT ''playlist_songs'') w3
                       in (case insert_playlist_songs
                                  \<lparr>ps_id = id, ps_playlist_id = playlistId, ps_song_id = songId\<rparr>
                                  (db w4) of
                             Inl e \<Rightarrow> (Inl e, w4)
                           | Inr d \<Rightarrow>
                               (if id = []
                                  then (Inl (InvariantError ''Lagu gagal ditambahkan ke playlist''),
                                        w4\<lparr>db := d\<rparr>)
                                  else (Inr id, w4\<lparr>db := d\<rparr>)))))))"

text \<open>\<^verbatim>\<open>async deletePlaylistSong(playlistId, songId, userId)\<close>\<close>

definition deletePlaylistSong :: "string \<Rightarrow> string \<Rightarrow> string \<Rightarrow> world \<Rightarrow> (error + unit) \<times> world" where
  "deletePlaylistSong playlistId songId userId w =
     (case verifyPlaylistOwner playlistId userId w of
        (Inl e, w1) \<Rightarrow> (Inl e, w1)
      | (Inr _, w1) \<Rightarrow>
          (let w2 = emit (Query DELETE ''playlist_songs'') w1;
               rows = filter (\<lambda>r. ps_playlist_id r = playlistId \<and> ps_song_id r = songId)
                        (playlist_songs (db w2));
               w3 = w2\<lparr>db := delete_playlist_songs playlistId songId (db w2)\<rparr>
           in if length rows = 0
                then (Inl (NotFoundError ''Lagu tidak ditemukan dalam playlist''), w3)
                else (Inr (), w3)))"

section \<open>PlaylistsService as the guide prints it\<close>

text \<open>\<^verbatim>\<open>async verifyPlaylistOwner(id, owner)\<close>\<close>

definition verifyPlaylistOwner_guide :: "string \<Rightarrow> string \<Rightarrow> world \<Rightarrow> (error + unit) \<times> world" where
  "verifyPlaylistOwner_guide id' owner w =
     (let w1 = emit (Query SELECT ''playlists'') w;
          rows = filter (\<lambda>p. playlist_id p = id') (playlists (db w1))
      in case rows of
           [] \<Rightarrow> (Inl (NotFoundError ''Playlist not found''), w1)
         | playlist # _ \<Rightarrow>
             (if playlist_owner playlist \<noteq> owner
                then (Inl (AuthorizationError ''You are not authorized to access this resource''), w1)
                else (Inr (), w1)))"

text \<open>
  \<^verbatim>\<open>async addSongToPlaylist(playlistId, songId)\<close>: the song check is outside the \<^verbatim>\<open>try\<close>,
  the insert inside.
\<close>

definition addSongToPlaylist :: "string \<Rightarrow> string \<Rightarrow> string \<Rightarrow> world \<Rightarrow> (error + string) \<times> world" where
  "addSongToPlaylist nano playlistId songId w =
     (let id = ''playlistsong-'' @ nano;
          w1 = emit (Query SELECT ''songs'') w;
          songResult = filter (\<lambda>s. song_id s = songId) (songs (db w1))
      in if length songResult = 0 then (Inl (NotFoundError ''Song not found''), w1)
         else
           (let w2 = emit (Query INSERT ''playlist_songs'') w1
            in (case insert_playlist_songs
                       \<lparr>ps_id = id, ps_playlist_id = playlistId, ps_song_id = songId\<rparr> (db w2) of
                  Inr d \<Rightarrow> (Inr id, w2\<lparr>db := d\<rparr>)
                | Inl e \<Rightarrow>
                    (if constraint e = Some ''unique_playlist_id_and_song_id''
                       then (Inl (InvariantError ''Song already exists in playlist''), w2)
                       else (Inl e, w2)))))"

text \<open>
  \<^verbatim>\<open>async addActivity(playlistId, songId, userId, action)\<close>; \<open>nano\<close> is \<^verbatim>\<open>nanoid(16)\<close> and
  \<open>now\<close> is \<^verbatim>\<open>new Date().toISOString()\<close>, the server's clock read at the call.
\<close>

definition addActivity :: "string \<Rightarrow> string \<Rightarrow> string \<Rightarrow> string \<Rightarrow> string \<Rightarrow> string \<Rightarrow> world \<Rightarrow> (error + unit) \<times> world" where
  "addActivity nano now playlistId songId userId action w =
     (let id = ''activity-'' @ nano;
          time = now;
          w1 = emit (Query INSERT ''playlist_song_activities'') w
      in case insert_playlist_song_activities
                \<lparr>act_id = id, act_playlist_id = playlistId, act_song_id = songId,
                 act_user_id = userId, act_action = action, act_time = time\<rparr> (db w1) of
           Inl e \<Rightarrow> (Inl e, w1)
         | Inr d \<Rightarrow> (Inr (), w1\<lparr>db := d\<rparr>))"

record activity_view =
  view_username :: string
  view_title :: string
  view_action :: string
  view_time :: string

text \<open>
  \<^verbatim>\<open>async getActivities(playlistId)\<close>: the activities of the playlist, joined with users on
  \<^verbatim>\<open>user_id\<close> and with songs on \<^verbatim>\<open>song_id\<close> (both inner joins), \<^verbatim>\<open>ORDER BY time ASC\<close>. The
  column is TEXT: the order is that of the texts, which for the fixed-width texts of
  \<^verbatim>\<open>toISOString\<close> is the order of the instants. Rows with the same time keep the table's
  order, one of the orders SQL allows.
\<close>

definition joined_activity :: "database \<Rightarrow> activity_row \<Rightarrow> activity_view list" where
  "joined_activity d a =
     concat (map (\<lambda>u. map (\<lambda>s. \<lparr>view_username = user_username u, view_title = song_title s,
                                 view_action = act_action a, view_time = act_time a\<rparr>)
                          (filter (\<lambda>s. song_id s = act_song_id a) (songs d)))
                 (filter (\<lambda>u. user_id u = act_user_id a) (users d)))"

definition getActivities :: "string \<Rightarrow> world \<Rightarrow> activity_view list \<times> world" where
  "getActivities playlistId w =
     (let w1 = emit (Query SELECT ''playlist_song_activities'') w;
          rows = concat (map (joined_activity (db w1))
                   (filter (\<lambda>a. act_playlist_id a = playlistId) (playlist_song_activities (db w1))))
      in (sort_key view_time rows, w1))"

text \<open>A finite sequence of \<^verbatim>\<open>addActivity\<close> calls, one after the other; a call that fails
  does not stop the later ones.\<close>

record activity_call =
  call_nano :: string
  call_now :: string
  call_playlistId :: string
  call_songId :: string
  call_userId :: string
  call_action :: string

fun addActivity_calls :: "activity_call list \<Rightarrow> world \<Rightarrow> world" where
  "addActivity_calls [] w = w"
| "addActivity_calls (c # cs) w =
     addActivity_calls cs
       (snd (addActivity (call_nano c) (call_now c) (call_playlistId c) (call_songId c)
               (call_userId c) (call_action c) w))"

text \<open>The row an \<^verbatim>\<open>addActivity\<close> call asks the store to insert.\<close>

definition activity_of_call :: "activity_call \<Rightarrow> activity_row" where
  "activity_of_call c =
     \<lparr>act_id = ''activity-'' @ call_nano c, act_playlist_id = call_playlistId c,
      act_song_id = call_songId c, act_user_id = call_userId c, act_action = call_action c,
      act_time = call_now c\<rparr>"

text \<open>The rows of the calls of a sequence that returned normally, in the order of the calls.\<close>

fun appended_rows :: "activity_call list \<Rightarrow> world \<Rightarrow> activity_row list" where
  "appended_rows [] w = []"
| "appended_rows (c # cs) w =
     (case addActivity (call_nano c) (call_now c) (call_playlistId c) (call_songId c)
             (call_userId c) (call_action c) w of
        (Inl e, w1) \<Rightarrow> appended_rows cs w1
      | (Inr _, w1) \<Rightarrow> activity_of_call c # appended_rows cs w1)"

text \<open>
  An activity as a listing shows it, when its user and its song are found: the statement
  that \<^verbatim>\<open>getActivities\<close> is compared with.
\<close>

definition listed :: "database \<Rightarrow> activity_row \<Rightarrow> activity_view option" where
  "listed d a =
     (case find (\<lambda>u. user_id u = act_user_id a) (users d) of
        None \<Rightarrow> None
      | Some u \<Rightarrow>
          (case find (\<lambda>s. song_id s = act_song_id a) (songs d) of
             None \<Rightarrow> None
           | Some s \<Rightarrow>
               Some \<lparr>view_username = user_username u, view_title = song_title s,
                     view_action = act_action a, view_time = act_time a\<rparr>))"

section \<open>Example states\<close>

definition world0 :: world where
  "world0 =
     \<lparr>db = \<lparr>users = [], songs = [], playlists = [], playlist_songs = [],
             playlist_song_activities = [], user_album_likes = []\<rparr>,
      cache = \<lparr>entries = Map.empty, clock = 0\<rparr>,
      trace = []\<rparr>"

text \<open>Nobody likes album a1, and the cache still holds a count of 0 for it.\<close>

definition stale_world :: world where
  "stale_world =
     world0\<lparr>cache := \<lparr>entries = [''album-likes:a1'' \<mapsto> (''0'', 3600)], clock = 10\<rparr>\<rparr>"

text \<open>User u1 likes album a1, and the cache holds the count 1 for it.\<close>

definition liked_world :: world where
  "liked_world =
     world0\<lparr>db := (db world0)\<lparr>user_album_likes :=
                 [\<lparr>like_id = ''like-n1'', like_user_id = ''u1'', like_album_id = ''a1''\<rparr>]\<rparr>,
            cache := \<lparr>entries = [''album-likes:a1'' \<mapsto> (''1'', 3600)], clock = 10\<rparr>\<rparr>"

text \<open>Users u1 and u2 like album a1, u1 likes album a2 as well, and nothing is cached.\<close>

definition two_album_world :: world where
  "two_album_world =
     world0\<lparr>db := (db world0)\<lparr>user_album_likes :=
                 [\<lparr>like_id = ''like-n1'', like_user_id = ''u1'', like_album_id = ''a1''\<rparr>,
                  \<lparr>like_id = ''like-n2'', like_user_id = ''u1'', like_album_id = ''a2''\<rparr>,
                  \<lparr>like_id = ''like-n3'', like_user_id = ''u2'', like_album_id = ''a1''\<rparr>]\<rparr>\<rparr>"

text \<open>User u1 owns playlist p1, which holds song s1; u2 is another user, s2 another song.\<close>

definition playlist_world :: world where
  "playlist_world =
     world0\<lparr>db := (db world0)
        \<lparr>users := [\<lparr>user_id = ''u1'', user_username = ''ann''\<rparr>,
                   \<lparr>user_id = ''u2'', user_username = ''bob''\<rparr>],
         songs := [\<lparr>song_id = ''s1'', song_title = ''One''\<rparr>,
                   \<lparr>song_id = ''s2'', song_title = ''Two''\<rparr>],
         playlists := [\<lparr>playlist_id = ''p1'', playlist_name = ''mix'', playlist_owner = ''u1''\<rparr>],
         playlist_songs := [\<lparr>ps_id = ''playlist-song-n0'', ps_playlist_id = ''p1'',
                             ps_song_id = ''s1''\<rparr>]\<rparr>\<rparr>"

text \<open>Two activities of playlist p1, the later one recorded first.\<close>

definition two_calls :: "activity_call list" where
  "two_calls =
     [\<lparr>call_nano = ''n1'', call_now = ''2025-06-23T10:00:01.000Z'', call_playlistId = ''p1'',
       call_songId = ''s1'', call_userId = ''u1'', call_action = ''add''\<rparr>,
      \<lparr>call_nano = ''n2'', call_now = ''2025-06-23T10:00:00.000Z'', call_playlistId = ''p1'',
       call_songId = ''s2'', call_userId = ''u2'', call_action = ''delete''\<rparr>]"

section \<open>Numerals survive the cache\<close>

lemma digit_char_is_digit: "d < 10 \<Longrightarrow> is_digit (digit_char d)"
  by (simp add: is_digit_def digit_char_def)

lemma digit_value_digit_char: "d < 10 \<Longrightarrow> digit_value (digit_char d) = d"
  by (simp add: digit_value_def digit_char_def)

lemma digit_char_zero: "d < 10 \<Longrightarrow> (digit_char d = CHR ''0'') = (d = 0)"
proof -
  assume d: "d < 10"
  have "(digit_char d = CHR ''0'') = ((of_char (digit_char d) :: nat) = of_char CHR ''0'')"
    by (simp only: of_char_eq_iff)
  also have "\<dots> = (d = 0)" using d by (simp add: digit_char_def)
  finally show ?thesis .
qed

lemma digit_char_0: "digit_char 0 = CHR ''0''"
  using digit_char_zero [of 0] by simp

lemma stringify_nonempty: "JSON_stringify n \<noteq> []"
  by (subst JSON_stringify.simps) simp

lemma stringify_digits: "list_all is_digit (JSON_stringify n)"
  by (induction n rule: JSON_stringify.induct)
     (subst JSON_stringify.simps, simp add: digit_char_is_digit)

lemma integer_value_snoc: "integer_value (s @ [c]) = 10 * integer_value s + digit_value c"
  by (simp add: integer_value_def)

lemma integer_value_stringify: "integer_value (JSON_stringify n) = n"
proof (induction n rule: JSON_stringify.induct)
  case (1 n)
  show ?case
  proof (cases "n < 10")
    case True
    then show ?thesis
      by (subst JSON_stringify.simps) (simp add: integer_value_def digit_value_digit_char)
  next
    case False
    with 1 show ?thesis
      by (subst JSON_stringify.simps) (simp add: integer_value_snoc digit_value_digit_char)
  qed
qed

lemma stringify_zero: "JSON_stringify 0 = ''0''"
  by (subst JSON_stringify.simps) (simp add: digit_char_0)

lemma hd_stringify_zero: "hd (JSON_stringify n) = CHR ''0'' \<Longrightarrow> n = 0"
proof (induction n rule: JSON_stringify.induct)
  case (1 n)
  show ?case
  proof (cases "n < 10")
    case True
    with 1(2) show ?thesis
      by (subst (asm) JSON_stringify.simps) (simp add: digit_char_zero)
  next
    case False
    then have "hd (JSON_stringify n) = hd (JSON_stringify (n div 10))"
      by (subst JSON_stringify.simps) (simp add: stringify_nonempty)
    with 1 False have "n div 10 = 0" by simp
    with False show ?thesis by simp
  qed
qed

lemma is_integer_text_stringify: "is_integer_text (JSON_stringify n)"
proof (cases "JSON_stringify n")
  case Nil
  then show ?thesis by (simp add: stringify_nonempty)
next
  case (Cons c cs)
  have d: "list_all is_digit (c # cs)" using stringify_digits [of n] Cons by simp
  have "cs = []" if "c = CHR ''0''"
  proof -
    from that Cons have "hd (JSON_stringify n) = CHR ''0''" by simp
    then have "n = 0" by (rule hd_stringify_zero)
    with Cons show ?thesis by (simp add: stringify_zero)
  qed
  with d Cons show ?thesis by (auto simp: is_integer_text_def)
qed

lemma JSON_parse_stringify:
  "n \<le> 9007199254740992 \<Longrightarrow> JSON_parse other (JSON_stringify n) = Some (JInt n)"
  by (simp add: JSON_parse_def is_integer_text_stringify integer_value_stringify)

lemma length_filter_count_list:
  "length (filter (\<lambda>r. f r = a) xs) = count_list (map f xs) a"
  by (induction xs) simp_all

section \<open>The cache and the clock\<close>

lemma redis_lookup_no_entry: "entries r k = None \<Longrightarrow> redis_lookup r k = None"
  by (simp add: redis_lookup_def)

lemma elapse_simps:
  "db (elapse n w) = db w" "trace (elapse n w) = trace w"
  "entries (cache (elapse n w)) = entries (cache w)"
  "clock (cache (elapse n w)) = clock (cache w) + n"
  by (simp_all add: elapse_def)

section \<open>addLike and deleteLike, case by case\<close>

lemma addLike_success:
  assumes "addLike l nano u a w = (Inr rid, w')"
  shows "l = Up \<and> rid = ''like-'' @ nano \<and> like_rows u a (db w) = []
       \<and> db w' = (db w)\<lparr>user_album_likes := user_album_likes (db w) @
            [\<lparr>like_id = rid, like_user_id = u, like_album_id = a\<rparr>]\<rparr>
       \<and> cache w' = (cache w)\<lparr>entries := (entries (cache w))((''album-likes:'' @ a) := None)\<rparr>
       \<and> trace w' = trace w @ [Query SELECT ''user_album_likes'', Query INSERT ''user_album_likes'',
            CacheDel (''album-likes:'' @ a)]"
  using assms
  by (auto simp: addLike_def Let_def insert_user_album_likes_def CacheService_delete_def emit_def
      split: if_splits sum.splits link.splits prod.splits)

lemma deleteLike_success:
  assumes "deleteLike l u a w = (Inr x, w')"
  shows "l = Up \<and> like_rows u a (db w) \<noteq> []
       \<and> db w' = delete_user_album_likes u a (db w)
       \<and> cache w' = (cache w)\<lparr>entries := (entries (cache w))((''album-likes:'' @ a) := None)\<rparr>
       \<and> trace w' = trace w @ [Query DELETE ''user_album_likes'', CacheDel (''album-likes:'' @ a)]"
  using assms
  by (auto simp: deleteLike_def Let_def CacheService_delete_def emit_def
      split: if_splits sum.splits link.splits prod.splits)

lemma addLike_existing:
  "like_rows u a (db w) \<noteq> [] \<Longrightarrow>
     addLike l nano u a w =
       (Inl (InvariantError ''Anda hanya boleh like sekali''),
        w\<lparr>trace := trace w @ [Query SELECT ''user_album_likes'']\<rparr>)"
  by (simp add: addLike_def Let_def emit_def)

lemma addLike_fresh:
  assumes "like_rows u a (db w) = []"
    "''like-'' @ nano \<notin> set (map like_id (user_album_likes (db w)))"
  shows "addLike l nano u a w =
    (case l of
       Up \<Rightarrow> (Inr (''like-'' @ nano),
              w\<lparr>db := (db w)\<lparr>user_album_likes := user_album_likes (db w) @
                      [\<lparr>like_id = ''like-'' @ nano, like_user_id = u, like_album_id = a\<rparr>]\<rparr>,
                cache := (cache w)\<lparr>entries := (entries (cache w))((''album-likes:'' @ a) := None)\<rparr>,
                trace := trace w @ [Query SELECT ''user_album_likes'',
                     Query INSERT ''user_album_likes'', CacheDel (''album-likes:'' @ a)]\<rparr>)
     | Down \<Rightarrow> (Inl RedisError,
              w\<lparr>db := (db w)\<lparr>user_album_likes := user_album_likes (db w) @
                      [\<lparr>like_id = ''like-'' @ nano, like_user_id = u, like_album_id = a\<rparr>]\<rparr>,
                trace := trace w @ [Query SELECT ''user_album_likes'',
                     Query INSERT ''user_album_likes'', CacheDel (''album-likes:'' @ a)]\<rparr>))"
  using assms
  by (cases l)
     (simp_all add: addLike_def Let_def insert_user_album_likes_def CacheService_delete_def emit_def)

lemma addLike_id_taken:
  assumes "like_rows u a (db w) = []"
    "''like-'' @ nano \<in> set (map like_id (user_album_likes (db w)))"
  shows "addLike l nano u a w =
    (Inl (PgError ''user_album_likes_pkey''),
     w\<lparr>trace := trace w @ [Query SELECT ''user_album_likes'', Query INSERT ''user_album_likes'']\<rparr>)"
  using assms
  by (simp add: addLike_def Let_def insert_user_album_likes_def emit_def)

lemma delete_nothing:
  "like_rows u a d = [] \<Longrightarrow> delete_user_album_likes u a d = d"
  by (simp add: like_rows_def delete_user_album_likes_def filter_empty_conv)

lemma deleteLike_absent:
  "like_rows u a (db w) = [] \<Longrightarrow>
     deleteLike l u a w =
       (Inl (NotFoundError ''Anda belum like album ini''),
        w\<lparr>trace := trace w @ [Query DELETE ''user_album_likes'']\<rparr>)"
  by (simp add: deleteLike_def Let_def emit_def delete_nothing)

lemma deleteLike_present:
  "like_rows u a (db w) \<noteq> [] \<Longrightarrow>
     deleteLike l u a w =
       (case l of
          Up \<Rightarrow> (Inr (),
                 w\<lparr>db := delete_user_album_likes u a (db w),
                   cache := (cache w)\<lparr>entries := (entries (cache w))((''album-likes:'' @ a) := None)\<rparr>,
                   trace := trace w @ [Query DELETE ''user_album_likes'',
                        CacheDel (''album-likes:'' @ a)]\<rparr>)
        | Down \<Rightarrow> (Inl RedisError,
                 w\<lparr>db := delete_user_album_likes u a (db w),
                   trace := trace w @ [Query DELETE ''user_album_likes'',
                        CacheDel (''album-likes:'' @ a)]\<rparr>))"
  by (cases l) (simp_all add: deleteLike_def Let_def emit_def CacheService_delete_def)

lemma addLike_guide_existing:
  assumes "like_rows u a (db w) \<noteq> []"
    "''like-'' @ nano \<notin> set (map like_id (user_album_likes (db w)))"
  shows "addLike_guide l nano a u w =
           (Inl (InvariantError ''You already liked this album''),
            w\<lparr>trace := trace w @ [Query INSERT ''user_album_likes'']\<rparr>)"
  using assms
  by (simp add: addLike_guide_def Let_def insert_user_album_likes_def emit_def constraint_def)


section \<open>countLikes, case by case\<close>

lemma countLikes_miss:
  assumes "redis_lookup (cache w) (''album-likes:'' @ a) = None"
  shows "countLikes other lg ls a w =
    (case ls of
       Up \<Rightarrow> (Inr \<lparr>count_field = JInt (length (album_like_rows a (db w))), fromCache = False\<rparr>,
              w\<lparr>trace := trace w @ [CacheGet (''album-likes:'' @ a), Query SELECT ''user_album_likes'',
                     CacheSet (''album-likes:'' @ a)],
                cache := (cache w)\<lparr>entries := (entries (cache w))(''album-likes:'' @ a \<mapsto>
                     (JSON_stringify (length (album_like_rows a (db w))), clock (cache w) + 3600))\<rparr>\<rparr>)
     | Down \<Rightarrow> (Inl RedisError,
              w\<lparr>trace := trace w @ [CacheGet (''album-likes:'' @ a), Query SELECT ''user_album_likes'',
                     CacheSet (''album-likes:'' @ a)]\<rparr>))"
  using assms
  by (cases lg; cases ls)
     (simp_all add: countLikes_def Let_def CacheService_get_def CacheService_set_def emit_def)

lemma countLikes_down:
  "countLikes other Down ls a w =
    (case ls of
       Up \<Rightarrow> (Inr \<lparr>count_field = JInt (length (album_like_rows a (db w))), fromCache = False\<rparr>,
              w\<lparr>trace := trace w @ [CacheGet (''album-likes:'' @ a), Query SELECT ''user_album_likes'',
                     CacheSet (''album-likes:'' @ a)],
                cache := (cache w)\<lparr>entries := (entries (cache w))(''album-likes:'' @ a \<mapsto>
                     (JSON_stringify (length (album_like_rows a (db w))), clock (cache w) + 3600))\<rparr>\<rparr>)
     | Down \<Rightarrow> (Inl RedisError,
              w\<lparr>trace := trace w @ [CacheGet (''album-likes:'' @ a), Query SELECT ''user_album_likes'',
                     CacheSet (''album-likes:'' @ a)]\<rparr>))"
  by (cases ls)
     (simp_all add: countLikes_def Let_def CacheService_get_def CacheService_set_def emit_def)

lemma countLikes_hit:
  assumes "redis_lookup (cache w) (''album-likes:'' @ a) = Some s" "JSON_parse other s = Some v"
  shows "countLikes other Up ls a w =
           (Inr \<lparr>count_field = v, fromCache = True\<rparr>,
            w\<lparr>trace := trace w @ [CacheGet (''album-likes:'' @ a)]\<rparr>)"
  using assms
  by (simp add: countLikes_def Let_def CacheService_get_def emit_def)

section \<open>The counter and its cache\<close>

text \<open>
  C1. Whenever \<open>addLike\<close> or \<open>deleteLike\<close> succeeds for an album, the world it returns
  has no cache entry under the album's key, and the cache delete is the last call it made.
  Hence the next \<open>countLikes\<close> for that album, however much later and whatever the
  transport does, never answers from the cache: it answers the count of the rows now in
  the store, tagged as computed, or it fails because its own write-back was rejected.
\<close>

theorem mutation_invalidates_cached_count:
  assumes "addLike l nano u a w = (Inr rid, w1) \<or> deleteLike l u a w = (Inr x, w1)"
  shows "entries (cache w1) (''album-likes:'' @ a) = None
       \<and> last (trace w1) = CacheDel (''album-likes:'' @ a)
       \<and> (case fst (countLikes other lg ls a (elapse n w1)) of
            Inr r \<Rightarrow> r = \<lparr>count_field = JInt (length (album_like_rows a (db w1))), fromCache = False\<rparr>
          | Inl e \<Rightarrow> ls = Down \<and> e = RedisError)"
proof -
  from assms have inv: "entries (cache w1) (''album-likes:'' @ a) = None"
    and tr: "last (trace w1) = CacheDel (''album-likes:'' @ a)"
    by (auto dest!: addLike_success deleteLike_success)
  from inv have "redis_lookup (cache (elapse n w1)) (''album-likes:'' @ a) = None"
    by (simp add: redis_lookup_no_entry elapse_simps)
  then have "case fst (countLikes other lg ls a (elapse n w1)) of
            Inr r \<Rightarrow> r = \<lparr>count_field = JInt (length (album_like_rows a (db w1))), fromCache = False\<rparr>
          | Inl e \<Rightarrow> ls = Down \<and> e = RedisError"
    by (cases ls) (simp_all add: countLikes_miss elapse_simps)
  with inv tr show ?thesis by simp
qed

text \<open>
  In \<open>stale_world\<close> the cache answers 0 for album a1; after u1 likes a1, and five seconds
  later, the answer is 1, computed. In \<open>liked_world\<close> the cache answers 1; after u1
  unlikes a1 the answer is 0, computed.
\<close>

theorem mutation_invalidates_cached_count_witness:
  "addLike Up ''n1'' ''u1'' ''a1'' stale_world
     = (Inr ''like-n1'', snd (addLike Up ''n1'' ''u1'' ''a1'' stale_world))
   \<and> fst (countLikes syntax_error Up Up ''a1'' stale_world)
     = Inr \<lparr>count_field = JInt 0, fromCache = True\<rparr>
   \<and> fst (countLikes syntax_error Up Up ''a1''
            (elapse 5 (snd (addLike Up ''n1'' ''u1'' ''a1'' stale_world))))
     = Inr \<lparr>count_field = JInt 1, fromCache = False\<rparr>
   \<and> deleteLike Up ''u1'' ''a1'' liked_world
     = (Inr (), snd (deleteLike Up ''u1'' ''a1'' liked_world))
   \<and> fst (countLikes syntax_error Up Up ''a1'' liked_world)
     = Inr \<lparr>count_field = JInt 1, fromCache = True\<rparr>
   \<and> fst (countLikes syntax_error Up Up ''a1''
            (elapse 0 (snd (deleteLike Up ''u1'' ''a1'' liked_world))))
     = Inr \<lparr>count_field = JInt 0, fromCache = False\<rparr>"
proof -
  let ?w1 = "snd (addLike Up ''n1'' ''u1'' ''a1'' stale_world)"
  let ?w2 = "snd (deleteLike Up ''u1'' ''a1'' liked_world)"
  have run: "addLike Up ''n1'' ''u1'' ''a1'' stale_world = (Inr ''like-n1'', ?w1)"
    by (simp add: addLike_def Let_def insert_user_album_likes_def like_rows_def
          CacheService_delete_def emit_def stale_world_def world0_def)
  have rows: "length (album_like_rows ''a1'' (db ?w1)) = 1"
    by (simp add: addLike_def Let_def insert_user_album_likes_def like_rows_def album_like_rows_def
          CacheService_delete_def emit_def stale_world_def world0_def)
  have before: "fst (countLikes syntax_error Up Up ''a1'' stale_world)
     = Inr \<lparr>count_field = JInt 0, fromCache = True\<rparr>"
    by (simp add: countLikes_def Let_def CacheService_get_def emit_def stale_world_def world0_def
       redis_lookup_def JSON_parse_def is_integer_text_def is_digit_def integer_value_def
       digit_value_def)
  have run2: "deleteLike Up ''u1'' ''a1'' liked_world = (Inr (), ?w2)"
    by (simp add: deleteLike_def Let_def like_rows_def CacheService_delete_def emit_def
          liked_world_def world0_def)
  have rows2: "length (album_like_rows ''a1'' (db ?w2)) = 0"
    by (simp add: deleteLike_def Let_def like_rows_def album_like_rows_def
          delete_user_album_likes_def CacheService_delete_def emit_def liked_world_def world0_def)
  have before2: "fst (countLikes syntax_error Up Up ''a1'' liked_world)
     = Inr \<lparr>count_field = JInt 1, fromCache = True\<rparr>"
    by (simp add: countLikes_def Let_def CacheService_get_def emit_def liked_world_def world0_def
       redis_lookup_def JSON_parse_def is_integer_text_def is_digit_def integer_value_def
       digit_value_def)
  from run mutation_invalidates_cached_count
      [where l = Up and nano = "''n1''" and u = "''u1''" and a = "''a1''" and w = stale_world
       and rid = "''like-n1''" and ?w1.0 = ?w1 and other = syntax_error and lg = Up and ls = Up
       and n = 5]
  have after: "fst (countLikes syntax_error Up Up ''a1'' (elapse 5 ?w1))
     = Inr \<lparr>count_field = JInt (length (album_like_rows ''a1'' (db ?w1))), fromCache = False\<rparr>"
    by (auto split: sum.splits)
  from run2 mutation_invalidates_cached_count
      [where l = Up and u = "''u1''" and a = "''a1''" and w = liked_world
       and x = "()" and ?w1.0 = ?w2 and other = syntax_error and lg = Up and ls = Up and n = 0]
  have after2: "fst (countLikes syntax_error Up Up ''a1'' (elapse 0 ?w2))
     = Inr \<lparr>count_field = JInt (length (album_like_rows ''a1'' (db ?w2))), fromCache = False\<rparr>"
    by (auto split: sum.splits)
  from rows run before after rows2 run2 before2 after2 show ?thesis by simp
qed

text \<open>
  C10. When the pair is already liked, \<open>addLike\<close> fails with its conflict error; when the
  pair is not liked, \<open>deleteLike\<close> fails with its not-found error; in both cases the store
  and the cache of the returned world are those of the call's start, and one statement
  was sent. No other state makes \<open>addLike\<close> fail with an InvariantError or \<open>deleteLike\<close>
  with a NotFoundError. And whenever either sent a cache delete, the store write before
  it had taken effect.
\<close>

theorem failed_like_mutation_changes_nothing:
  "(like_rows u a (db w) \<noteq> [] \<longrightarrow>
      fst (addLike l nano u a w) = Inl (InvariantError ''Anda hanya boleh like sekali'')
    \<and> db (snd (addLike l nano u a w)) = db w
    \<and> cache (snd (addLike l nano u a w)) = cache w
    \<and> trace (snd (addLike l nano u a w)) = trace w @ [Query SELECT ''user_album_likes''])
 \<and> (like_rows u a (db w) = [] \<longrightarrow>
      fst (deleteLike l u a w) = Inl (NotFoundError ''Anda belum like album ini'')
    \<and> db (snd (deleteLike l u a w)) = db w
    \<and> cache (snd (deleteLike l u a w)) = cache w
    \<and> trace (snd (deleteLike l u a w)) = trace w @ [Query DELETE ''user_album_likes''])
 \<and> (fst (addLike l nano u a w) = Inl (InvariantError m) \<longrightarrow> like_rows u a (db w) \<noteq> [])
 \<and> (fst (deleteLike l u a w) = Inl (NotFoundError m) \<longrightarrow> like_rows u a (db w) = [])
 \<and> (CacheDel (''album-likes:'' @ a)
       \<in> set (drop (length (trace w)) (trace (snd (addLike l nano u a w)))) \<longrightarrow>
      user_album_likes (db (snd (addLike l nano u a w))) =
        user_album_likes (db w) @
          [\<lparr>like_id = ''like-'' @ nano, like_user_id = u, like_album_id = a\<rparr>])
 \<and> (CacheDel (''album-likes:'' @ a)
       \<in> set (drop (length (trace w)) (trace (snd (deleteLike l u a w)))) \<longrightarrow>
      like_rows u a (db w) \<noteq> []
    \<and> db (snd (deleteLike l u a w)) = delete_user_album_likes u a (db w))"
proof -
  have a1: "like_rows u a (db w) \<noteq> [] \<longrightarrow>
      fst (addLike l nano u a w) = Inl (InvariantError ''Anda hanya boleh like sekali'')
    \<and> db (snd (addLike l nano u a w)) = db w
    \<and> cache (snd (addLike l nano u a w)) = cache w
    \<and> trace (snd (addLike l nano u a w)) = trace w @ [Query SELECT ''user_album_likes'']"
    by (simp add: addLike_existing)
  have d1: "like_rows u a (db w) = [] \<longrightarrow>
      fst (deleteLike l u a w) = Inl (NotFoundError ''Anda belum like album ini'')
    \<and> db (snd (deleteLike l u a w)) = db w
    \<and> cache (snd (deleteLike l u a w)) = cache w
    \<and> trace (snd (deleteLike l u a w)) = trace w @ [Query DELETE ''user_album_likes'']"
    by (simp add: deleteLike_absent)
  have a2: "fst (addLike l nano u a w) = Inl (InvariantError m) \<longrightarrow> like_rows u a (db w) \<noteq> []"
  proof (cases "like_rows u a (db w) = []")
    case True
    then show ?thesis
      by (cases "''like-'' @ nano \<in> set (map like_id (user_album_likes (db w)))"; cases l)
         (simp_all add: addLike_fresh addLike_id_taken)
  qed simp
  have d2: "fst (deleteLike l u a w) = Inl (NotFoundError m) \<longrightarrow> like_rows u a (db w) = []"
    by (cases "like_rows u a (db w) = []"; cases l) (simp_all add: deleteLike_present)
  have a3: "CacheDel (''album-likes:'' @ a)
       \<in> set (drop (length (trace w)) (trace (snd (addLike l nano u a w)))) \<longrightarrow>
      user_album_likes (db (snd (addLike l nano u a w))) =
        user_album_likes (db w) @
          [\<lparr>like_id = ''like-'' @ nano, like_user_id = u, like_album_id = a\<rparr>]"
  proof (cases "like_rows u a (db w) = []")
    case True
    then show ?thesis
      by (cases "''like-'' @ nano \<in> set (map like_id (user_album_likes (db w)))"; cases l)
         (simp_all add: addLike_fresh addLike_id_taken)
  next
    case False
    then show ?thesis by (simp add: addLike_existing)
  qed
  have d3: "CacheDel (''album-likes:'' @ a)
       \<in> set (drop (length (trace w)) (trace (snd (deleteLike l u a w)))) \<longrightarrow>
      like_rows u a (db w) \<noteq> []
    \<and> db (snd (deleteLike l u a w)) = delete_user_album_likes u a (db w)"
    by (cases "like_rows u a (db w) = []"; cases l)
       (simp_all add: deleteLike_present deleteLike_absent)
  from a1 d1 a2 d2 a3 d3 show ?thesis by blast
qed

text \<open>
  In \<open>liked_world\<close> u1 likes a1 again and u2, who never liked it, unlikes it: both fail
  and leave the row and the cached 1 where they were. When u2 likes a1 and when u1
  unlikes it, the cache delete is sent and the row is there, or gone.
\<close>

theorem failed_like_mutation_changes_nothing_witness:
  "like_rows ''u1'' ''a1'' (db liked_world) \<noteq> []
   \<and> addLike Up ''n2'' ''u1'' ''a1'' liked_world
       = (Inl (InvariantError ''Anda hanya boleh like sekali''),
          liked_world\<lparr>trace := [Query SELECT ''user_album_likes'']\<rparr>)
   \<and> like_rows ''u2'' ''a1'' (db liked_world) = []
   \<and> deleteLike Up ''u2'' ''a1'' liked_world
       = (Inl (NotFoundError ''Anda belum like album ini''),
          liked_world\<lparr>trace := [Query DELETE ''user_album_likes'']\<rparr>)
   \<and> CacheDel ''album-likes:a1'' \<in> set (trace (snd (addLike Up ''n2'' ''u2'' ''a1'' liked_world)))
   \<and> user_album_likes (db (snd (addLike Up ''n2'' ''u2'' ''a1'' liked_world)))
       = [\<lparr>like_id = ''like-n1'', like_user_id = ''u1'', like_album_id = ''a1''\<rparr>,
          \<lparr>like_id = ''like-n2'', like_user_id = ''u2'', like_album_id = ''a1''\<rparr>]
   \<and> CacheDel ''album-likes:a1'' \<in> set (trace (snd (deleteLike Up ''u1'' ''a1'' liked_world)))
   \<and> user_album_likes (db (snd (deleteLike Up ''u1'' ''a1'' liked_world))) = []"
proof -
  have h1: "like_rows ''u1'' ''a1'' (db liked_world) \<noteq> []"
    by (simp add: like_rows_def liked_world_def world0_def)
  have h2: "like_rows ''u2'' ''a1'' (db liked_world) = []"
    by (simp add: like_rows_def liked_world_def world0_def)
  have t: "trace liked_world = []" by (simp add: liked_world_def world0_def)
  have rows: "user_album_likes (db liked_world)
      = [\<lparr>like_id = ''like-n1'', like_user_id = ''u1'', like_album_id = ''a1''\<rparr>]"
    by (simp add: liked_world_def world0_def)
  have e: "\<And>v t. (v = liked_world\<lparr>trace := t\<rparr>)
             = (db v = db liked_world \<and> cache v = cache liked_world \<and> trace v = t)"
    by auto
  have h5: "CacheDel (''album-likes:'' @ ''a1'')
      \<in> set (drop (length (trace liked_world)) (trace (snd (addLike Up ''n2'' ''u2'' ''a1'' liked_world))))"
    by (simp add: addLike_def Let_def insert_user_album_likes_def like_rows_def
          CacheService_delete_def emit_def liked_world_def world0_def)
  have h6: "CacheDel (''album-likes:'' @ ''a1'')
      \<in> set (drop (length (trace liked_world)) (trace (snd (deleteLike Up ''u1'' ''a1'' liked_world))))"
    by (simp add: deleteLike_def Let_def like_rows_def CacheService_delete_def emit_def
          liked_world_def world0_def)
  note at_u1 = failed_like_mutation_changes_nothing
                 [of "''u1''" "''a1''" liked_world Up "''n2''"
                     "''Anda hanya boleh like sekali''"]
  note at_u2 = failed_like_mutation_changes_nothing
                 [of "''u2''" "''a1''" liked_world Up "''n2''" "''Anda belum like album ini''"]
  from at_u1 [THEN conjunct1, rule_format, OF h1] t
  have a: "addLike Up ''n2'' ''u1'' ''a1'' liked_world
       = (Inl (InvariantError ''Anda hanya boleh like sekali''),
          liked_world\<lparr>trace := [Query SELECT ''user_album_likes'']\<rparr>)"
    by (simp add: prod_eq_iff e)
  from at_u2 [THEN conjunct2, THEN conjunct1, rule_format, OF h2] t
  have d: "deleteLike Up ''u2'' ''a1'' liked_world
       = (Inl (NotFoundError ''Anda belum like album ini''),
          liked_world\<lparr>trace := [Query DELETE ''user_album_likes'']\<rparr>)"
    by (simp add: prod_eq_iff e)
  from a have a': "fst (addLike Up ''n2'' ''u1'' ''a1'' liked_world)
       = Inl (InvariantError ''Anda hanya boleh like sekali'')"
    by simp
  from d have d': "fst (deleteLike Up ''u2'' ''a1'' liked_world)
       = Inl (NotFoundError ''Anda belum like album ini'')"
    by simp
  note g1 = at_u1 [THEN conjunct2, THEN conjunct2, THEN conjunct1, rule_format, OF a']
  note g2 = at_u2 [THEN conjunct2, THEN conjunct2, THEN conjunct2, THEN conjunct1,
                   rule_format, OF d']
  from at_u2 [THEN conjunct2, THEN conjunct2, THEN conjunct2, THEN conjunct2, THEN conjunct1,
              rule_format, OF h5] rows
  have i: "user_album_likes (db (snd (addLike Up ''n2'' ''u2'' ''a1'' liked_world)))
       = [\<lparr>like_id = ''like-n1'', like_user_id = ''u1'', like_album_id = ''a1''\<rparr>,
          \<lparr>like_id = ''like-n2'', like_user_id = ''u2'', like_album_id = ''a1''\<rparr>]"
    by simp
  from at_u1 [THEN conjunct2, THEN conjunct2, THEN conjunct2, THEN conjunct2, THEN conjunct2,
              rule_format, OF h6] rows
  have r: "user_album_likes (db (snd (deleteLike Up ''u1'' ''a1'' liked_world))) = []"
    by (simp add: delete_user_album_likes_def)
  from h5 t have m1: "CacheDel ''album-likes:a1''
      \<in> set (trace (snd (addLike Up ''n2'' ''u2'' ''a1'' liked_world)))"
    by simp
  from h6 t have m2: "CacheDel ''album-likes:a1''
      \<in> set (trace (snd (deleteLike Up ''u1'' ''a1'' liked_world)))"
    by simp
  from g1 g2 a d i r m1 m2 show ?thesis by simp
qed

text \<open>
  C5. \<open>countLikes\<close> asks the cache first. On a hit, what \<^verbatim>\<open>JSON.parse\<close> makes of the
  cached text is the answer, tagged as from the cache, and the store is not asked; so if
  the cache holds the numeral of an integer \<open>n\<close> up to \<open>2^53\<close> under the album's key, the
  answer is \<open>n\<close>. If the cache holds nothing under the key, the answer is the number of
  rows of \<^verbatim>\<open>user_album_likes\<close> whose album is the one asked for, tagged as computed; its
  numeral is written back to expire 3600 seconds later, so a lookup finds it for 3600
  seconds and no longer.
\<close>

theorem countLikes_cache_aside:
  "(redis_lookup (cache w) (''album-likes:'' @ a) = Some s \<and> JSON_parse other s = Some v \<longrightarrow>
      countLikes other Up ls a w =
        (Inr \<lparr>count_field = v, fromCache = True\<rparr>,
         w\<lparr>trace := trace w @ [CacheGet (''album-likes:'' @ a)]\<rparr>))
 \<and> (redis_lookup (cache w) (''album-likes:'' @ a) = Some (JSON_stringify n)
      \<and> n \<le> 9007199254740992 \<longrightarrow>
      countLikes other Up ls a w =
        (Inr \<lparr>count_field = JInt n, fromCache = True\<rparr>,
         w\<lparr>trace := trace w @ [CacheGet (''album-likes:'' @ a)]\<rparr>))
 \<and> (redis_lookup (cache w) (''album-likes:'' @ a) = None \<longrightarrow>
      fst (countLikes other Up Up a w) =
        Inr \<lparr>count_field = JInt (count_list (map like_album_id (user_album_likes (db w))) a),
             fromCache = False\<rparr>
    \<and> db (snd (countLikes other Up Up a w)) = db w
    \<and> trace (snd (countLikes other Up Up a w)) =
        trace w @ [CacheGet (''album-likes:'' @ a), Query SELECT ''user_album_likes'',
                   CacheSet (''album-likes:'' @ a)]
    \<and> entries (cache (snd (countLikes other Up Up a w))) (''album-likes:'' @ a) =
        Some (JSON_stringify (count_list (map like_album_id (user_album_likes (db w))) a),
              clock (cache w) + 3600)
    \<and> redis_lookup (cache (elapse m (snd (countLikes other Up Up a w)))) (''album-likes:'' @ a) =
        (if m < 3600
           then Some (JSON_stringify (count_list (map like_album_id (user_album_likes (db w))) a))
           else None))"
proof -
  have n: "length (album_like_rows a (db w)) = count_list (map like_album_id (user_album_likes (db w))) a"
    by (simp add: album_like_rows_def length_filter_count_list)
  have hit: "redis_lookup (cache w) (''album-likes:'' @ a) = Some s \<and> JSON_parse other s = Some v \<longrightarrow>
      countLikes other Up ls a w =
        (Inr \<lparr>count_field = v, fromCache = True\<rparr>,
         w\<lparr>trace := trace w @ [CacheGet (''album-likes:'' @ a)]\<rparr>)"
    by (simp add: countLikes_hit)
  have int: "redis_lookup (cache w) (''album-likes:'' @ a) = Some (JSON_stringify n)
      \<and> n \<le> 9007199254740992 \<longrightarrow>
      countLikes other Up ls a w =
        (Inr \<lparr>count_field = JInt n, fromCache = True\<rparr>,
         w\<lparr>trace := trace w @ [CacheGet (''album-likes:'' @ a)]\<rparr>)"
    by (simp add: countLikes_hit JSON_parse_stringify)
  have miss: "redis_lookup (cache w) (''album-likes:'' @ a) = None \<longrightarrow>
      fst (countLikes other Up Up a w) =
        Inr \<lparr>count_field = JInt (length (album_like_rows a (db w))), fromCache = False\<rparr>
    \<and> db (snd (countLikes other Up Up a w)) = db w
    \<and> trace (snd (countLikes other Up Up a w)) =
        trace w @ [CacheGet (''album-likes:'' @ a), Query SELECT ''user_album_likes'',
                   CacheSet (''album-likes:'' @ a)]
    \<and> entries (cache (snd (countLikes other Up Up a w))) (''album-likes:'' @ a) =
        Some (JSON_stringify (length (album_like_rows a (db w))), clock (cache w) + 3600)
    \<and> redis_lookup (cache (elapse m (snd (countLikes other Up Up a w)))) (''album-likes:'' @ a) =
        (if m < 3600 then Some (JSON_stringify (length (album_like_rows a (db w)))) else None)"
    by (simp add: countLikes_miss redis_lookup_def elapse_def)
  from hit int miss [unfolded n] show ?thesis by (intro conjI)
qed

text \<open>
  In \<open>liked_world\<close> the cached 1 is the answer for a1. In \<open>two_album_world\<close> nothing is
  cached, three rows are in the table, and the computed answers are 2 for a1 and 1 for a2.
\<close>

theorem countLikes_cache_aside_witness:
  "redis_lookup (cache liked_world) (''album-likes:'' @ ''a1'') = Some ''1''
   \<and> JSON_parse syntax_error ''1'' = Some (JInt 1)
   \<and> JSON_stringify 1 = ''1''
   \<and> countLikes syntax_error Up Up ''a1'' liked_world
       = (Inr \<lparr>count_field = JInt 1, fromCache = True\<rparr>,
          liked_world\<lparr>trace := [CacheGet ''album-likes:a1'']\<rparr>)
   \<and> redis_lookup (cache two_album_world) (''album-likes:'' @ ''a1'') = None
   \<and> fst (countLikes syntax_error Up Up ''a1'' two_album_world)
       = Inr \<lparr>count_field = JInt 2, fromCache = False\<rparr>
   \<and> entries (cache (snd (countLikes syntax_error Up Up ''a1'' two_album_world))) ''album-likes:a1''
       = Some (''2'', 3600)
   \<and> redis_lookup (cache two_album_world) (''album-likes:'' @ ''a2'') = None
   \<and> fst (countLikes syntax_error Up Up ''a2'' two_album_world)
       = Inr \<lparr>count_field = JInt 1, fromCache = False\<rparr>"
proof -
  have s1: "JSON_stringify 1 = ''1''" by code_simp
  have s1': "JSON_stringify (Suc 0) = ''1''" by code_simp
  have s2: "JSON_stringify 2 = ''2''" by code_simp
  have p1: "JSON_parse syntax_error ''1'' = Some (JInt 1)"
    by (simp add: JSON_parse_def is_integer_text_def is_digit_def integer_value_def digit_value_def)
  have t: "trace liked_world = []" by (simp add: liked_world_def world0_def)
  have h1: "redis_lookup (cache liked_world) (''album-likes:'' @ ''a1'') = Some ''1''"
    by (simp add: redis_lookup_def liked_world_def world0_def)
  have h1n: "redis_lookup (cache liked_world) (''album-likes:'' @ ''a1'') = Some (JSON_stringify 1)
      \<and> (1::nat) \<le> 9007199254740992"
    using h1 by (simp add: s1')
  have h2: "redis_lookup (cache two_album_world) (''album-likes:'' @ ''a1'') = None"
    and h3: "redis_lookup (cache two_album_world) (''album-likes:'' @ ''a2'') = None"
    by (simp_all add: redis_lookup_def two_album_world_def world0_def)
  have c1: "count_list (map like_album_id (user_album_likes (db two_album_world))) ''a1'' = 2"
    and c2: "count_list (map like_album_id (user_album_likes (db two_album_world))) ''a2'' = 1"
    and k: "clock (cache two_album_world) = 0"
    by (simp_all add: two_album_world_def world0_def)
  note at_hit = countLikes_cache_aside
      [where w = liked_world and a = "''a1''" and s = "''1''" and v = "JInt 1" and n = 1
         and other = syntax_error and ls = Up]
  note at_a1 = countLikes_cache_aside
      [where w = two_album_world and a = "''a1''" and other = syntax_error and ls = Up]
  note at_a2 = countLikes_cache_aside
      [where w = two_album_world and a = "''a2''" and other = syntax_error and ls = Up]
  from at_hit [THEN conjunct1, rule_format, OF conjI, OF h1 p1] t
  have hit: "countLikes syntax_error Up Up ''a1'' liked_world
       = (Inr \<lparr>count_field = JInt 1, fromCache = True\<rparr>,
          liked_world\<lparr>trace := [CacheGet ''album-likes:a1'']\<rparr>)"
    by simp
  from at_hit [THEN conjunct2, THEN conjunct1, rule_format, OF h1n] t
  have "countLikes syntax_error Up Up ''a1'' liked_world
       = (Inr \<lparr>count_field = JInt 1, fromCache = True\<rparr>,
          liked_world\<lparr>trace := [CacheGet ''album-likes:a1'']\<rparr>)"
    by simp
  from at_a1 [THEN conjunct2, THEN conjunct2, rule_format, OF h2] c1 k s2
  have m1: "fst (countLikes syntax_error Up Up ''a1'' two_album_world)
       = Inr \<lparr>count_field = JInt 2, fromCache = False\<rparr>"
    and e1: "entries (cache (snd (countLikes syntax_error Up Up ''a1'' two_album_world)))
               ''album-likes:a1'' = Some (''2'', 3600)"
    by simp_all
  from at_a2 [THEN conjunct2, THEN conjunct2, rule_format, OF h3] c2
  have m2: "fst (countLikes syntax_error Up Up ''a2'' two_album_world)
       = Inr \<lparr>count_field = JInt 1, fromCache = False\<rparr>"
    by simp
  from h1 p1 s1 hit h2 m1 e1 h3 m2 show ?thesis by (intro conjI)
qed

text \<open>
  C4, amended. \<open>countLikes\<close> catches whatever the cache lookup throws and never looks at
  it: a lookup that fails in the transport is handled as a lookup that finds nothing. The
  count is computed from the store and written back; if the write-back goes through, the
  caller gets the count tagged as computed and no sign of the failure; only if the
  write-back is rejected as well does the transport's error reach the caller.
\<close>

theorem countLikes_lookup_failure_handled_as_miss:
  "(redis_lookup (cache w) (''album-likes:'' @ a) = None \<longrightarrow>
      countLikes other Down ls a w = countLikes other Up ls a w)
 \<and> fst (countLikes other Down Up a w) =
      Inr \<lparr>count_field = JInt (length (album_like_rows a (db w))), fromCache = False\<rparr>
 \<and> fst (countLikes other Down Down a w) = Inl RedisError"
  by (simp add: countLikes_down countLikes_miss)

text \<open>
  C4 as stated fails: with nothing cached for a1, a lookup whose transport fails gives the
  very result and the very world of a lookup that finds no key, and that result is a count.
\<close>

theorem countLikes_transport_failure_not_surfaced_counterexample:
  "countLikes syntax_error Down Up ''a1'' world0 = countLikes syntax_error Up Up ''a1'' world0
   \<and> fst (countLikes syntax_error Down Up ''a1'' world0)
       = Inr \<lparr>count_field = JInt 0, fromCache = False\<rparr>"
  by (simp add: countLikes_def Let_def CacheService_get_def CacheService_set_def emit_def
        redis_lookup_def world0_def album_like_rows_def)

theorem countLikes_lookup_failure_handled_as_miss_witness:
  "redis_lookup (cache (liked_world\<lparr>cache := cache world0\<rparr>)) (''album-likes:'' @ ''a1'') = None
   \<and> countLikes syntax_error Down Up ''a1'' (liked_world\<lparr>cache := cache world0\<rparr>)
       = countLikes syntax_error Up Up ''a1'' (liked_world\<lparr>cache := cache world0\<rparr>)
   \<and> fst (countLikes syntax_error Down Up ''a1'' (liked_world\<lparr>cache := cache world0\<rparr>))
       = Inr \<lparr>count_field = JInt 1, fromCache = False\<rparr>"
proof -
  let ?w = "liked_world\<lparr>cache := cache world0\<rparr>"
  have h: "redis_lookup (cache ?w) (''album-likes:'' @ ''a1'') = None"
    by (simp add: redis_lookup_def world0_def)
  have r: "length (album_like_rows ''a1'' (db ?w)) = 1"
    by (simp add: album_like_rows_def liked_world_def world0_def)
  note c4 = countLikes_lookup_failure_handled_as_miss [of ?w "''a1''" syntax_error Up]
  from c4 h
  have eq: "countLikes syntax_error Down Up ''a1'' ?w = countLikes syntax_error Up Up ''a1'' ?w"
    by blast
  from c4 have "fst (countLikes syntax_error Down Up ''a1'' ?w)
       = Inr \<lparr>count_field = JInt (length (album_like_rows ''a1'' (db ?w))), fromCache = False\<rparr>"
    by blast
  with r have val: "fst (countLikes syntax_error Down Up ''a1'' ?w)
       = Inr \<lparr>count_field = JInt 1, fromCache = False\<rparr>"
    by simp
  from h eq val show ?thesis by blast
qed

section \<open>Liking twice\<close>

text \<open>
  C2, amended. When the pair is already liked at the start of the call, \<open>addLike\<close> of the
  service finds the conflict by its existence read: it sends the SELECT, fails with
  InvariantError and sends no INSERT, whatever id it would have used and whatever the
  cache does. The guide's \<open>addLike\<close> sends the INSERT and turns the store's
  \<^verbatim>\<open>unique_user_and_album\<close> violation into its InvariantError, provided the id it
  generated is not taken.
\<close>

theorem addLike_conflict_found_by_existence_read:
  assumes "like_rows u a (db w) \<noteq> []"
  shows "addLike l nano u a w =
           (Inl (InvariantError ''Anda hanya boleh like sekali''),
            w\<lparr>trace := trace w @ [Query SELECT ''user_album_likes'']\<rparr>)
       \<and> (''like-'' @ nano \<notin> set (map like_id (user_album_likes (db w))) \<longrightarrow>
            addLike_guide l nano a u w =
              (Inl (InvariantError ''You already liked this album''),
               w\<lparr>trace := trace w @ [Query INSERT ''user_album_likes'']\<rparr>))"
  using assms by (simp add: addLike_existing addLike_guide_existing)

text \<open>
  C2 as stated fails on the service: in \<open>liked_world\<close> the second like of a1 by u1 is
  refused as a conflict after one SELECT, and no INSERT was sent whose constraint could
  have spoken.
\<close>

theorem addLike_conflict_without_insert_counterexample:
  "fst (addLike Up ''n2'' ''u1'' ''a1'' liked_world)
     = Inl (InvariantError ''Anda hanya boleh like sekali'')
   \<and> trace (snd (addLike Up ''n2'' ''u1'' ''a1'' liked_world)) = [Query SELECT ''user_album_likes'']
   \<and> Query INSERT ''user_album_likes''
       \<notin> set (trace (snd (addLike Up ''n2'' ''u1'' ''a1'' liked_world)))"
  by (simp add: addLike_def Let_def emit_def like_rows_def liked_world_def world0_def)

theorem addLike_conflict_found_by_existence_read_witness:
  "like_rows ''u1'' ''a1'' (db liked_world) \<noteq> []
   \<and> addLike Down ''n2'' ''u1'' ''a1'' liked_world =
       (Inl (InvariantError ''Anda hanya boleh like sekali''),
        liked_world\<lparr>trace := [Query SELECT ''user_album_likes'']\<rparr>)
   \<and> addLike_guide Down ''n2'' ''a1'' ''u1'' liked_world =
       (Inl (InvariantError ''You already liked this album''),
        liked_world\<lparr>trace := [Query INSERT ''user_album_likes'']\<rparr>)"
proof -
  have h: "like_rows ''u1'' ''a1'' (db liked_world) \<noteq> []"
    by (simp add: like_rows_def liked_world_def world0_def)
  have t: "trace liked_world = []" by (simp add: liked_world_def world0_def)
  have f: "''like-'' @ ''n2'' \<notin> set (map like_id (user_album_likes (db liked_world)))"
    by (simp add: liked_world_def world0_def)
  from addLike_conflict_found_by_existence_read [OF h, of Down "''n2''"] f t h
  show ?thesis by simp
qed



section \<open>The ownership gate\<close>

lemma filter_key_distinct:
  "distinct (map f xs) \<Longrightarrow>
     filter (\<lambda>x. f x = k) xs = (case find (\<lambda>x. f x = k) xs of None \<Rightarrow> [] | Some x \<Rightarrow> [x])"
proof (induction xs)
  case Nil
  then show ?case by simp
next
  case (Cons x xs)
  show ?case
  proof (cases "f x = k")
    case True
    with Cons.prems have "\<forall>y\<in>set xs. f y \<noteq> k" by (force simp: image_iff)
    then have "filter (\<lambda>y. f y = k) xs = []" by (simp add: filter_empty_conv)
    with True show ?thesis by (simp add: find_None_iff)
  next
    case False
    with Cons show ?thesis by simp
  qed
qed

lemma filter_key_member:
  assumes "distinct (map f xs)" "r \<in> set xs" "f r = k"
  shows "filter (\<lambda>x. f x = k) xs = [r]"
  using assms
proof (induction xs)
  case Nil
  then show ?case by simp
next
  case (Cons x xs)
  show ?case
  proof (cases "x = r")
    case True
    with Cons.prems have "\<forall>y\<in>set xs. f y \<noteq> k" by (force simp: image_iff)
    then have "filter (\<lambda>y. f y = k) xs = []" by (simp add: filter_empty_conv)
    with True Cons.prems show ?thesis by simp
  next
    case False
    with Cons.prems have r: "r \<in> set xs" by simp
    with Cons.prems have "f x \<noteq> k" by (force simp: image_iff)
    with Cons r show ?thesis by simp
  qed
qed

lemma filter_key_absent:
  "k \<notin> set (map f xs) \<Longrightarrow> filter (\<lambda>x. f x = k) xs = []"
  by (auto simp: filter_empty_conv)

lemma verifyPlaylistOwner_absent:
  "p \<notin> set (map playlist_id (playlists (db w))) \<Longrightarrow>
     verifyPlaylistOwner p u w =
       (Inl (NotFoundError ''Playlist tidak ditemukan''),
        w\<lparr>trace := trace w @ [Query SELECT ''playlists'']\<rparr>)"
  by (simp add: verifyPlaylistOwner_def Let_def emit_def filter_key_absent)

lemma verifyPlaylistOwner_present:
  assumes "distinct (map playlist_id (playlists (db w)))" "r \<in> set (playlists (db w))"
    "playlist_id r = p"
  shows "verifyPlaylistOwner p u w =
       (if playlist_owner r \<noteq> u
          then Inl (AuthorizationError ''Anda tidak berhak mengakses playlist ini'')
          else Inr (),
        w\<lparr>trace := trace w @ [Query SELECT ''playlists'']\<rparr>)"
  using filter_key_member [OF assms]
  by (simp add: verifyPlaylistOwner_def Let_def emit_def)

lemma verifyPlaylistOwner_guide_absent:
  "p \<notin> set (map playlist_id (playlists (db w))) \<Longrightarrow>
     verifyPlaylistOwner_guide p u w =
       (Inl (NotFoundError ''Playlist not found''),
        w\<lparr>trace := trace w @ [Query SELECT ''playlists'']\<rparr>)"
  by (simp add: verifyPlaylistOwner_guide_def Let_def emit_def filter_key_absent)

lemma verifyPlaylistOwner_guide_present:
  assumes "distinct (map playlist_id (playlists (db w)))" "r \<in> set (playlists (db w))"
    "playlist_id r = p"
  shows "verifyPlaylistOwner_guide p u w =
       (if playlist_owner r \<noteq> u
          then Inl (AuthorizationError ''You are not authorized to access this resource'')
          else Inr (),
        w\<lparr>trace := trace w @ [Query SELECT ''playlists'']\<rparr>)"
  using filter_key_member [OF assms]
  by (simp add: verifyPlaylistOwner_guide_def Let_def emit_def)

lemma verifyPlaylistOwner_world:
  "snd (verifyPlaylistOwner p u w) = w\<lparr>trace := trace w @ [Query SELECT ''playlists'']\<rparr>"
  by (simp add: verifyPlaylistOwner_def Let_def emit_def split: list.splits)

text \<open>
  C6. With the playlists table keyed by id: \<open>verifyPlaylistOwner\<close> fails with
  NotFoundError when no playlist has the id, fails with AuthorizationError when the
  playlist with the id has another owner, and returns normally when its owner is the
  user. In each case the returned world differs from the given one by the one SELECT in
  the log. The guide's copy does the same, with its own messages.
\<close>

theorem verifyPlaylistOwner_outcomes:
  "(p \<notin> set (map playlist_id (playlists (db w))) \<longrightarrow>
      verifyPlaylistOwner p u w =
        (Inl (NotFoundError ''Playlist tidak ditemukan''),
         w\<lparr>trace := trace w @ [Query SELECT ''playlists'']\<rparr>)
    \<and> verifyPlaylistOwner_guide p u w =
        (Inl (NotFoundError ''Playlist not found''),
         w\<lparr>trace := trace w @ [Query SELECT ''playlists'']\<rparr>))
 \<and> (distinct (map playlist_id (playlists (db w))) \<and> r \<in> set (playlists (db w))
      \<and> playlist_id r = p \<and> playlist_owner r \<noteq> u \<longrightarrow>
      verifyPlaylistOwner p u w =
        (Inl (AuthorizationError ''Anda tidak berhak mengakses playlist ini''),
         w\<lparr>trace := trace w @ [Query SELECT ''playlists'']\<rparr>)
    \<and> verifyPlaylistOwner_guide p u w =
        (Inl (AuthorizationError ''You are not authorized to access this resource''),
         w\<lparr>trace := trace w @ [Query SELECT ''playlists'']\<rparr>))
 \<and> (distinct (map playlist_id (playlists (db w))) \<and> r \<in> set (playlists (db w))
      \<and> playlist_id r = p \<and> playlist_owner r = u \<longrightarrow>
      verifyPlaylistOwner p u w = (Inr (), w\<lparr>trace := trace w @ [Query SELECT ''playlists'']\<rparr>)
    \<and> verifyPlaylistOwner_guide p u w =
        (Inr (), w\<lparr>trace := trace w @ [Query SELECT ''playlists'']\<rparr>))"
proof (intro conjI impI)
  assume "p \<notin> set (map playlist_id (playlists (db w)))"
  then show "verifyPlaylistOwner p u w =
        (Inl (NotFoundError ''Playlist tidak ditemukan''),
         w\<lparr>trace := trace w @ [Query SELECT ''playlists'']\<rparr>)"
    and "verifyPlaylistOwner_guide p u w =
        (Inl (NotFoundError ''Playlist not found''),
         w\<lparr>trace := trace w @ [Query SELECT ''playlists'']\<rparr>)"
    by (rule verifyPlaylistOwner_absent, rule verifyPlaylistOwner_guide_absent)
next
  assume a: "distinct (map playlist_id (playlists (db w))) \<and> r \<in> set (playlists (db w))
      \<and> playlist_id r = p \<and> playlist_owner r \<noteq> u"
  then show "verifyPlaylistOwner p u w =
        (Inl (AuthorizationError ''Anda tidak berhak mengakses playlist ini''),
         w\<lparr>trace := trace w @ [Query SELECT ''playlists'']\<rparr>)"
    using verifyPlaylistOwner_present [of w r p u] by simp
  from a show "verifyPlaylistOwner_guide p u w =
        (Inl (AuthorizationError ''You are not authorized to access this resource''),
         w\<lparr>trace := trace w @ [Query SELECT ''playlists'']\<rparr>)"
    using verifyPlaylistOwner_guide_present [of w r p u] by simp
next
  assume a: "distinct (map playlist_id (playlists (db w))) \<and> r \<in> set (playlists (db w))
      \<and> playlist_id r = p \<and> playlist_owner r = u"
  then show "verifyPlaylistOwner p u w
      = (Inr (), w\<lparr>trace := trace w @ [Query SELECT ''playlists'']\<rparr>)"
    using verifyPlaylistOwner_present [of w r p u] by simp
  from a show "verifyPlaylistOwner_guide p u w =
        (Inr (), w\<lparr>trace := trace w @ [Query SELECT ''playlists'']\<rparr>)"
    using verifyPlaylistOwner_guide_present [of w r p u] by simp
qed

text \<open>In \<open>playlist_world\<close>: an unknown playlist, u2 at u1's playlist, and u1 at their own.\<close>

theorem verifyPlaylistOwner_outcomes_witness:
  "fst (verifyPlaylistOwner ''p9'' ''u1'' playlist_world)
     = Inl (NotFoundError ''Playlist tidak ditemukan'')
   \<and> fst (verifyPlaylistOwner ''p1'' ''u2'' playlist_world)
     = Inl (AuthorizationError ''Anda tidak berhak mengakses playlist ini'')
   \<and> verifyPlaylistOwner ''p1'' ''u1'' playlist_world
     = (Inr (), playlist_world\<lparr>trace := [Query SELECT ''playlists'']\<rparr>)"
proof -
  let ?r = "\<lparr>playlist_id = ''p1'', playlist_name = ''mix'', playlist_owner = ''u1''\<rparr>"
  have t: "trace playlist_world = []" by (simp add: playlist_world_def world0_def)
  have h0: "''p9'' \<notin> set (map playlist_id (playlists (db playlist_world)))"
    by (simp add: playlist_world_def world0_def)
  have h1: "distinct (map playlist_id (playlists (db playlist_world)))
        \<and> ?r \<in> set (playlists (db playlist_world)) \<and> playlist_id ?r = ''p1''"
    by (simp add: playlist_world_def world0_def)
  from verifyPlaylistOwner_outcomes [of "''p9''" playlist_world "''u1''"] h0
  have a: "fst (verifyPlaylistOwner ''p9'' ''u1'' playlist_world)
     = Inl (NotFoundError ''Playlist tidak ditemukan'')"
    by simp
  from verifyPlaylistOwner_outcomes [of "''p1''" playlist_world "''u2''" ?r] h1
  have b: "fst (verifyPlaylistOwner ''p1'' ''u2'' playlist_world)
     = Inl (AuthorizationError ''Anda tidak berhak mengakses playlist ini'')"
    by simp
  from verifyPlaylistOwner_outcomes [of "''p1''" playlist_world "''u1''" ?r] h1 t
  have c: "verifyPlaylistOwner ''p1'' ''u1'' playlist_world
     = (Inr (), playlist_world\<lparr>trace := [Query SELECT ''playlists'']\<rparr>)"
    by simp
  from a b c show ?thesis by simp
qed

lemma gate_fails:
  assumes "fst (verifyPlaylistOwner p u w) = Inl e"
  shows "verifyPlaylistOwner p u w = (Inl e, w\<lparr>trace := trace w @ [Query SELECT ''playlists'']\<rparr>)"
  using assms verifyPlaylistOwner_world [of p u w] by (simp add: prod_eq_iff)

lemma gate_passes:
  assumes "fst (verifyPlaylistOwner p u w) = Inr x"
  shows "verifyPlaylistOwner p u w = (Inr (), w\<lparr>trace := trace w @ [Query SELECT ''playlists'']\<rparr>)"
  using assms verifyPlaylistOwner_world [of p u w] by (simp add: prod_eq_iff)

lemma gate_passes_exists:
  "fst (verifyPlaylistOwner p u w) = Inr x \<Longrightarrow>
     filter (\<lambda>r. playlist_id r = p) (playlists (db w)) \<noteq> []"
  by (auto simp: verifyPlaylistOwner_def Let_def emit_def split: list.splits)

lemma deletePlaylistById_gate_fails:
  "fst (verifyPlaylistOwner p u w) = Inl e \<Longrightarrow>
     deletePlaylistById p u w = (Inl e, w\<lparr>trace := trace w @ [Query SELECT ''playlists'']\<rparr>)"
  by (simp add: deletePlaylistById_def gate_fails)

lemma addPlaylistSong_gate_fails:
  "fst (verifyPlaylistOwner p u w) = Inl e \<Longrightarrow>
     addPlaylistSong nano p s u w = (Inl e, w\<lparr>trace := trace w @ [Query SELECT ''playlists'']\<rparr>)"
  by (simp add: addPlaylistSong_def gate_fails)

lemma deletePlaylistSong_gate_fails:
  "fst (verifyPlaylistOwner p u w) = Inl e \<Longrightarrow>
     deletePlaylistSong p s u w = (Inl e, w\<lparr>trace := trace w @ [Query SELECT ''playlists'']\<rparr>)"
  by (simp add: deletePlaylistSong_def gate_fails)

lemma deletePlaylistById_gate_passes:
  "fst (verifyPlaylistOwner p u w) = Inr x \<Longrightarrow>
     deletePlaylistById p u w =
       (if filter (\<lambda>r. playlist_id r = p) (playlists (db w)) = []
          then Inl (NotFoundError ''Playlist gagal dihapus, Id tidak ditemukan'') else Inr (),
        w\<lparr>db := delete_playlists p (db w),
          trace := trace w @ [Query SELECT ''playlists'', Query DELETE ''playlists'']\<rparr>)"
  by (simp add: deletePlaylistById_def gate_passes Let_def emit_def)

lemma deletePlaylistSong_gate_passes:
  "fst (verifyPlaylistOwner p u w) = Inr x \<Longrightarrow>
     deletePlaylistSong p s u w =
       (if filter (\<lambda>r. ps_playlist_id r = p \<and> ps_song_id r = s) (playlist_songs (db w)) = []
          then Inl (NotFoundError ''Lagu tidak ditemukan dalam playlist'') else Inr (),
        w\<lparr>db := delete_playlist_songs p s (db w),
          trace := trace w @ [Query SELECT ''playlists'', Query DELETE ''playlist_songs'']\<rparr>)"
  by (simp add: deletePlaylistSong_def gate_passes Let_def emit_def)

lemma addPlaylistSong_gate_passes:
  assumes "fst (verifyPlaylistOwner p u w) = Inr x"
  shows "addPlaylistSong nano p s u w =
    (if filter (\<lambda>r. song_id r = s) (songs (db w)) = []
       then (Inl (NotFoundError ''Lagu tidak ditemukan''),
             w\<lparr>trace := trace w @ [Query SELECT ''playlists'', Query SELECT ''playlists'',
                                    Query SELECT ''songs'']\<rparr>)
     else (case insert_playlist_songs
                  \<lparr>ps_id = ''playlist-song-'' @ nano, ps_playlist_id = p, ps_song_id = s\<rparr> (db w) of
             Inl e \<Rightarrow>
               (Inl e,
                w\<lparr>trace := trace w @ [Query SELECT ''playlists'', Query SELECT ''playlists'',
                                      Query SELECT ''songs'', Query INSERT ''playlist_songs'']\<rparr>)
           | Inr d \<Rightarrow>
               (Inr (''playlist-song-'' @ nano),
                w\<lparr>db := d,
                  trace := trace w @ [Query SELECT ''playlists'', Query SELECT ''playlists'',
                                      Query SELECT ''songs'', Query INSERT ''playlist_songs'']\<rparr>)))"
  using gate_passes_exists [OF assms]
  by (simp add: addPlaylistSong_def gate_passes [OF assms] Let_def emit_def split: sum.splits)

lemma trace_deletePlaylistById:
  "take (Suc (length (trace w))) (trace (snd (deletePlaylistById p u w)))
     = trace w @ [Query SELECT ''playlists'']"
  by (cases "fst (verifyPlaylistOwner p u w)")
     (simp_all add: deletePlaylistById_gate_fails deletePlaylistById_gate_passes)

lemma trace_deletePlaylistSong:
  "take (Suc (length (trace w))) (trace (snd (deletePlaylistSong p s u w)))
     = trace w @ [Query SELECT ''playlists'']"
  by (cases "fst (verifyPlaylistOwner p u w)")
     (simp_all add: deletePlaylistSong_gate_fails deletePlaylistSong_gate_passes)

lemma trace_addPlaylistSong:
  "take (Suc (length (trace w))) (trace (snd (addPlaylistSong nano p s u w)))
     = trace w @ [Query SELECT ''playlists'']"
  by (cases "fst (verifyPlaylistOwner p u w)")
     (simp_all add: addPlaylistSong_gate_fails addPlaylistSong_gate_passes split: sum.splits)

text \<open>
  C7. In \<open>deletePlaylistById\<close>, \<open>addPlaylistSong\<close> and \<open>deletePlaylistSong\<close> of the service
  the first statement sent is always the gate's SELECT on playlists. When the gate fails,
  each of the three fails with the gate's error and returns the world the gate returned:
  the store and the cache as given, and nothing in the log after that SELECT.
\<close>

theorem ownership_gate_precedes_mutation:
  "(fst (verifyPlaylistOwner p u w) = Inl e \<longrightarrow>
      deletePlaylistById p u w = (Inl e, w\<lparr>trace := trace w @ [Query SELECT ''playlists'']\<rparr>)
    \<and> addPlaylistSong nano p s u w = (Inl e, w\<lparr>trace := trace w @ [Query SELECT ''playlists'']\<rparr>)
    \<and> deletePlaylistSong p s u w = (Inl e, w\<lparr>trace := trace w @ [Query SELECT ''playlists'']\<rparr>))
 \<and> take (Suc (length (trace w))) (trace (snd (deletePlaylistById p u w)))
      = trace w @ [Query SELECT ''playlists'']
 \<and> take (Suc (length (trace w))) (trace (snd (addPlaylistSong nano p s u w)))
      = trace w @ [Query SELECT ''playlists'']
 \<and> take (Suc (length (trace w))) (trace (snd (deletePlaylistSong p s u w)))
      = trace w @ [Query SELECT ''playlists'']"
  using trace_deletePlaylistById [of w p u] trace_addPlaylistSong [of w nano p s u]
    trace_deletePlaylistSong [of w p s u]
    deletePlaylistById_gate_fails [of p u w e] addPlaylistSong_gate_fails [of p u w e nano s]
    deletePlaylistSong_gate_fails [of p u w e s]
  by blast

text \<open>In \<open>playlist_world\<close> u2 tries all three on u1's playlist p1.\<close>

theorem ownership_gate_precedes_mutation_witness:
  "fst (verifyPlaylistOwner ''p1'' ''u2'' playlist_world)
     = Inl (AuthorizationError ''Anda tidak berhak mengakses playlist ini'')
   \<and> deletePlaylistById ''p1'' ''u2'' playlist_world
     = (Inl (AuthorizationError ''Anda tidak berhak mengakses playlist ini''),
        playlist_world\<lparr>trace := [Query SELECT ''playlists'']\<rparr>)
   \<and> addPlaylistSong ''n1'' ''p1'' ''s2'' ''u2'' playlist_world
     = (Inl (AuthorizationError ''Anda tidak berhak mengakses playlist ini''),
        playlist_world\<lparr>trace := [Query SELECT ''playlists'']\<rparr>)
   \<and> deletePlaylistSong ''p1'' ''s1'' ''u2'' playlist_world
     = (Inl (AuthorizationError ''Anda tidak berhak mengakses playlist ini''),
        playlist_world\<lparr>trace := [Query SELECT ''playlists'']\<rparr>)"
proof -
  have t: "trace playlist_world = []" by (simp add: playlist_world_def world0_def)
  have h: "fst (verifyPlaylistOwner ''p1'' ''u2'' playlist_world)
     = Inl (AuthorizationError ''Anda tidak berhak mengakses playlist ini'')"
    by (simp add: verifyPlaylistOwner_def Let_def emit_def playlist_world_def world0_def)
  from ownership_gate_precedes_mutation
         [of "''p1''" "''u2''" playlist_world
             "AuthorizationError ''Anda tidak berhak mengakses playlist ini''"] h t
  show ?thesis by simp
qed

section \<open>Duplicate memberships\<close>

text \<open>
  C8. In \<open>playlist_world\<close> song s1 is already in playlist p1, and the owner u1 adds it
  again. \<open>addPlaylistSong\<close> of the service passes its three checks, sends the INSERT and
  lets the store's rejection through as it came: a query error carrying the constraint
  \<^verbatim>\<open>unique_playlist_id_and_song_id\<close>, not an InvariantError. The membership rows are
  unchanged. The guide's \<open>addSongToPlaylist\<close> answers the same insert with its
  InvariantError.
\<close>

theorem addPlaylistSong_duplicate_generic_failure:
  "addPlaylistSong ''n1'' ''p1'' ''s1'' ''u1'' playlist_world =
     (Inl (PgError ''unique_playlist_id_and_song_id''),
      playlist_world\<lparr>trace := [Query SELECT ''playlists'', Query SELECT ''playlists'',
                                Query SELECT ''songs'', Query INSERT ''playlist_songs'']\<rparr>)
   \<and> addSongToPlaylist ''n1'' ''p1'' ''s1'' playlist_world =
     (Inl (InvariantError ''Song already exists in playlist''),
      playlist_world\<lparr>trace := [Query SELECT ''songs'', Query INSERT ''playlist_songs'']\<rparr>)"
  by (simp add: addPlaylistSong_def addSongToPlaylist_def verifyPlaylistOwner_def Let_def emit_def
        insert_playlist_songs_def constraint_def playlist_world_def world0_def)

section \<open>The activity log\<close>

lemma addActivity_effect:
  "addActivity nano now p s u act w =
     (if ''activity-'' @ nano \<in> set (map act_id (playlist_song_activities (db w)))
        then (Inl (PgError ''playlist_song_activities_pkey''),
              w\<lparr>trace := trace w @ [Query INSERT ''playlist_song_activities'']\<rparr>)
      else if p \<notin> set (map playlist_id (playlists (db w)))
        then (Inl (PgError ''fk_playlist_song_activities.playlist_id_playlists.id''),
              w\<lparr>trace := trace w @ [Query INSERT ''playlist_song_activities'']\<rparr>)
      else (Inr (),
            w\<lparr>db := (db w)\<lparr>playlist_song_activities := playlist_song_activities (db w) @
                   [\<lparr>act_id = ''activity-'' @ nano, act_playlist_id = p, act_song_id = s,
                     act_user_id = u, act_action = act, act_time = now\<rparr>]\<rparr>,
              trace := trace w @ [Query INSERT ''playlist_song_activities'']\<rparr>))"
  by (simp add: addActivity_def Let_def emit_def insert_playlist_song_activities_def)

lemma addActivity_calls_tables:
  "users (db (addActivity_calls cs w)) = users (db w)
   \<and> songs (db (addActivity_calls cs w)) = songs (db w)
   \<and> playlist_song_activities (db (addActivity_calls cs w))
       = playlist_song_activities (db w) @ appended_rows cs w"
proof (induction cs arbitrary: w)
  case Nil
  show ?case by simp
next
  case (Cons c cs)
  show ?case
    by (simp add: Cons.IH addActivity_effect activity_of_call_def)
qed

lemma joined_listed:
  assumes "distinct (map user_id (users d))" "distinct (map song_id (songs d))"
  shows "joined_activity d a = (case listed d a of None \<Rightarrow> [] | Some v \<Rightarrow> [v])"
  by (simp add: joined_activity_def listed_def filter_key_distinct [OF assms(1)]
        filter_key_distinct [OF assms(2)] split: option.splits)

lemma concat_map_option:
  "concat (map (\<lambda>a. case g a of None \<Rightarrow> [] | Some v \<Rightarrow> [v]) xs) = List.map_filter g xs"
  by (induction xs) (simp_all add: map_filter_simps split: option.splits)

lemma joined_unchanged:
  "users d' = users d \<Longrightarrow> songs d' = songs d \<Longrightarrow> joined_activity d' = joined_activity d"
  by (rule ext) (simp add: joined_activity_def)

text \<open>
  C9, amended. With users and songs keyed by id: after any finite sequence of
  \<open>addActivity\<close> calls, \<open>getActivities\<close> for a playlist returns one row (username, title,
  action, time) for each recorded activity of the playlist whose user and song are found
  in the users and songs tables, and none for the others; the rows are in ascending order
  of the recorded times; a playlist with no recorded activity yields the empty list.
\<close>

theorem getActivities_lists_found_activities_in_time_order:
  assumes "distinct (map user_id (users (db w)))" "distinct (map song_id (songs (db w)))"
  shows "fst (getActivities p (addActivity_calls cs w)) =
           sort_key view_time
             (List.map_filter (listed (db w))
                (filter (\<lambda>a. act_playlist_id a = p)
                   (playlist_song_activities (db w) @ appended_rows cs w)))
       \<and> sorted (map view_time (fst (getActivities p (addActivity_calls cs w))))
       \<and> (filter (\<lambda>a. act_playlist_id a = p)
             (playlist_song_activities (db w) @ appended_rows cs w) = [] \<longrightarrow>
           fst (getActivities p (addActivity_calls cs w)) = [])"
proof -
  let ?w = "addActivity_calls cs w"
  let ?rec = "filter (\<lambda>a. act_playlist_id a = p)
                (playlist_song_activities (db w) @ appended_rows cs w)"
  have j: "joined_activity (db ?w) = (\<lambda>a. case listed (db w) a of None \<Rightarrow> [] | Some v \<Rightarrow> [v])"
    using joined_unchanged [of "db ?w" "db w"] joined_listed [OF assms]
    by (simp add: addActivity_calls_tables fun_eq_iff)
  have "fst (getActivities p ?w) = sort_key view_time (concat (map (joined_activity (db ?w)) ?rec))"
    by (simp add: getActivities_def Let_def emit_def addActivity_calls_tables)
  then have eq: "fst (getActivities p ?w) = sort_key view_time (List.map_filter (listed (db w)) ?rec)"
    by (simp only: j concat_map_option)
  then have e: "?rec = [] \<longrightarrow> fst (getActivities p ?w) = []"
    by (simp add: map_filter_simps)
  have s: "sorted (map view_time (fst (getActivities p ?w)))"
    by (simp only: eq sorted_sort_key)
  from eq s e show ?thesis by blast
qed

text \<open>
  C9 as stated fails: in \<open>playlist_world\<close> an activity on p1 for a song id that the songs
  table does not hold is appended without error, and the listing of p1 is empty.
\<close>

theorem getActivities_drops_activity_counterexample:
  "fst (addActivity ''n1'' ''2025-06-23T10:00:00.000Z'' ''p1'' ''s9'' ''u1'' ''add'' playlist_world)
     = Inr ()
   \<and> playlist_song_activities
        (db (snd (addActivity ''n1'' ''2025-06-23T10:00:00.000Z'' ''p1'' ''s9'' ''u1'' ''add''
                    playlist_world)))
     = [\<lparr>act_id = ''activity-n1'', act_playlist_id = ''p1'', act_song_id = ''s9'',
         act_user_id = ''u1'', act_action = ''add'', act_time = ''2025-06-23T10:00:00.000Z''\<rparr>]
   \<and> fst (getActivities ''p1''
           (snd (addActivity ''n1'' ''2025-06-23T10:00:00.000Z'' ''p1'' ''s9'' ''u1'' ''add''
                   playlist_world)))
     = []"
  by (simp add: addActivity_def getActivities_def joined_activity_def Let_def emit_def
        insert_playlist_song_activities_def playlist_world_def world0_def)

text \<open>
  The two calls of \<open>two_calls\<close> come back in the order of their times; a playlist
  without activity lists nothing.
\<close>

theorem getActivities_lists_found_activities_in_time_order_witness:
  "distinct (map user_id (users (db playlist_world)))
   \<and> distinct (map song_id (songs (db playlist_world)))
   \<and> fst (getActivities ''p1'' (addActivity_calls two_calls playlist_world)) =
       [\<lparr>view_username = ''bob'', view_title = ''Two'', view_action = ''delete'',
         view_time = ''2025-06-23T10:00:00.000Z''\<rparr>,
        \<lparr>view_username = ''ann'', view_title = ''One'', view_action = ''add'',
         view_time = ''2025-06-23T10:00:01.000Z''\<rparr>]
   \<and> fst (getActivities ''p9'' (addActivity_calls two_calls playlist_world)) = []"
proof -
  have h1: "distinct (map user_id (users (db playlist_world)))"
    and h2: "distinct (map song_id (songs (db playlist_world)))"
    by (simp_all add: playlist_world_def world0_def)
  have rows: "playlist_song_activities (db playlist_world) @ appended_rows two_calls playlist_world
      = map activity_of_call two_calls"
    by (simp add: two_calls_def addActivity_def Let_def emit_def insert_playlist_song_activities_def
          activity_of_call_def playlist_world_def world0_def)
  have ord: "''2025-06-23T10:00:00.000Z'' \<le> ''2025-06-23T10:00:01.000Z''"
    "\<not> ''2025-06-23T10:00:01.000Z'' \<le> ''2025-06-23T10:00:00.000Z''"
    by (simp_all add: less_char_def)
  have none: "filter (\<lambda>a. act_playlist_id a = ''p9'')
       (playlist_song_activities (db playlist_world) @ appended_rows two_calls playlist_world) = []"
    by (simp only: rows) (simp add: two_calls_def activity_of_call_def)
  from getActivities_lists_found_activities_in_time_order [OF h1 h2, of "''p9''" two_calls] none
  have empty: "fst (getActivities ''p9'' (addActivity_calls two_calls playlist_world)) = []"
    by blast
  from getActivities_lists_found_activities_in_time_order [OF h1 h2, of "''p1''" two_calls]
  have "fst (getActivities ''p1'' (addActivity_calls two_calls playlist_world)) =
           sort_key view_time
             (List.map_filter (listed (db playlist_world))
                (filter (\<lambda>a. act_playlist_id a = ''p1'') (map activity_of_call two_calls)))"
    by (simp only: rows)
  also have "\<dots> = [\<lparr>view_username = ''bob'', view_title = ''Two'', view_action = ''delete'',
         view_time = ''2025-06-23T10:00:00.000Z''\<rparr>,
        \<lparr>view_username = ''ann'', view_title = ''One'', view_action = ''add'',
         view_time = ''2025-06-23T10:00:01.000Z''\<rparr>]"
    by (simp add: two_calls_def activity_of_call_def listed_def map_filter_simps
          playlist_world_def world0_def ord)
  finally show ?thesis using h1 h2 empty by simp
qed

end
